theory Spec2Isabelle
  imports Complex_Main "HOL-Library.Word"
begin

section \<open>Conventions\<close>

text \<open>
  The scripts of this repository hand their numeric work to NumPy, SciPy, scikit-learn,
  rasterio and Pillow. Sample values are modelled as real numbers, so every statement
  below is about the arithmetic the scripts ask for, carried out exactly; rounding of the
  binary floating-point formats is not part of the model. Library calls are modelled by
  the function they document, under the name the script calls them by.
\<close>

section \<open>Visualization Exporter (process.py)\<close>

text \<open>The two in-script constants of the stretch, \<open>min_val = 0\<close> and \<open>max_val = 1500\<close>.\<close>

definition min_val :: real where
  "min_val = 0"

definition max_val :: real where
  "max_val = 1500"

text \<open>\<open>np.clip(a, a_min, a_max)\<close> is \<open>minimum(a_max, maximum(a, a_min))\<close>.\<close>

definition clip :: "real \<Rightarrow> real \<Rightarrow> real \<Rightarrow> real" where
  "clip a a_min a_max = min a_max (max a a_min)"

text \<open>
  \<open>astype(np.uint8)\<close> on a floating-point sample drops the fractional part (rounding
  towards zero) and keeps the low eight bits.
\<close>

definition trunc_zero :: "real \<Rightarrow> int" where
  "trunc_zero v = (if 0 \<le> v then \<lfloor>v\<rfloor> else \<lceil>v\<rceil>)"

definition astype_uint8 :: "real \<Rightarrow> 8 word" where
  "astype_uint8 v = word_of_int (trunc_zero v)"

text \<open>
  Lines 37 to 46 of the script for one sample: the clip, the linear stretch of a clipped
  sample, and the two composed with the cast.
\<close>

definition clipped_sample :: "real \<Rightarrow> real" where
  "clipped_sample x = clip x min_val max_val"

definition scale_clipped :: "real \<Rightarrow> real" where
  "scale_clipped c = ((c - min_val) / (max_val - min_val)) * 255"

definition scaled_sample :: "real \<Rightarrow> real" where
  "scaled_sample x = scale_clipped (clipped_sample x)"

definition rescale_sample :: "real \<Rightarrow> 8 word" where
  "rescale_sample x = astype_uint8 (scaled_sample x)"

text \<open>
  A three-dimensional NumPy array: its shape and its elements in row-major order.
  \<open>dataset.read()\<close> returns one of shape (bands, height, width).
\<close>

record 'a array3 =
  shape3 :: "nat \<times> nat \<times> nat"
  flat :: "'a list"

definition at3 :: "'a array3 \<Rightarrow> nat \<Rightarrow> nat \<Rightarrow> nat \<Rightarrow> 'a" where
  "at3 a i j k = (case shape3 a of (d0, d1, d2) \<Rightarrow> flat a ! ((i * d1 + j) * d2 + k))"

text \<open>An element-wise operation keeps the shape.\<close>

definition map_array3 :: "('a \<Rightarrow> 'b) \<Rightarrow> 'a array3 \<Rightarrow> 'b array3" where
  "map_array3 f a = \<lparr>shape3 = shape3 a, flat = map f (flat a)\<rparr>"

text \<open>
  \<open>np.transpose(a, (1, 2, 0))\<close>: axis 1 of the argument becomes axis 0 of the result,
  axis 2 becomes axis 1 and axis 0 becomes axis 2.
\<close>

definition transpose_120 :: "'a array3 \<Rightarrow> 'a array3" where
  "transpose_120 a =
     (case shape3 a of (d0, d1, d2) \<Rightarrow>
        \<lparr>shape3 = (d1, d2, d0),
         flat = concat (map (\<lambda>i. concat (map (\<lambda>j. map (\<lambda>c. at3 a c i j) [0..<d0])
                  [0..<d2])) [0..<d1])\<rparr>)"

text \<open>The array pipeline of the script, lines 37, 42, 46 and 54.\<close>

definition clipped_data :: "real array3 \<Rightarrow> real array3" where
  "clipped_data raw_data = map_array3 (\<lambda>x. clip x min_val max_val) raw_data"

definition scaled_data :: "real array3 \<Rightarrow> real array3" where
  "scaled_data raw_data =
     map_array3 (\<lambda>c. ((c - min_val) / (max_val - min_val)) * 255) (clipped_data raw_data)"

definition rgb_data_uint8 :: "real array3 \<Rightarrow> 8 word array3" where
  "rgb_data_uint8 raw_data = map_array3 astype_uint8 (scaled_data raw_data)"

definition rgb_data_hwc :: "real array3 \<Rightarrow> 8 word array3" where
  "rgb_data_hwc raw_data = transpose_120 (rgb_data_uint8 raw_data)"

section \<open>Alignment Checker (alignment-1.py)\<close>

text \<open>
  A rasterio \<open>CRS\<close> object: the text it prints as, and the coordinate system it
  denotes. Two objects can be written differently and denote the same system, as
  \<open>EPSG:3857\<close> and \<open>EPSG:900913\<close> do.
\<close>

record crs_object =
  crs_text :: string
  crs_system :: string

text \<open>
  \<open>==\<close> on the \<open>crs\<close> attributes of two datasets. Two CRS objects are equal when
  they denote the same coordinate system, however they are written; \<open>None\<close>, the
  attribute of a file that declares no CRS, is equal to \<open>None\<close> only.
\<close>

definition crs_eq :: "crs_object option \<Rightarrow> crs_object option \<Rightarrow> bool" where
  "crs_eq a b =
     (case (a, b) of
        (None, None) \<Rightarrow> True
      | (Some x, Some y) \<Rightarrow> crs_system x = crs_system y
      | _ \<Rightarrow> False)"

text \<open>
  What the checker reads from an open dataset: the coordinate reference system
  (\<open>None\<close> when the file declares none), the affine transform and the shape
  (rows, columns). An \<open>Affine\<close> is a tuple of nine coefficients, the last three being
  0, 0, 1; \<open>np.allclose\<close> sees all nine.
\<close>

record affine =
  coef_a :: real
  coef_b :: real
  coef_c :: real
  coef_d :: real
  coef_e :: real
  coef_f :: real

definition coefficients :: "affine \<Rightarrow> real list" where
  "coefficients t = [coef_a t, coef_b t, coef_c t, coef_d t, coef_e t, coef_f t, 0, 0, 1]"

record dataset =
  crs :: "crs_object option"
  transform :: affine
  shape :: "nat \<times> nat"

text \<open>
  \<open>np.allclose(a, b)\<close> with its default tolerances: every pair of elements satisfies
  \<open>|a - b| \<le> atol + rtol * |b|\<close>.
\<close>

definition rtol :: real where
  "rtol = 1 / 100000"

definition atol :: real where
  "atol = 1 / 100000000"

definition isclose :: "real \<Rightarrow> real \<Rightarrow> bool" where
  "isclose a b = (\<bar>a - b\<bar> \<le> atol + rtol * \<bar>b\<bar>)"

definition allclose :: "affine \<Rightarrow> affine \<Rightarrow> bool" where
  "allclose s t = list_all2 isclose (coefficients s) (coefficients t)"

text \<open>One constructor for each \<open>print\<close> statement of the script, with the values it formats.\<close>

datatype line =
    Verifying
  | CrsMatches bool
  | SatelliteCrs "crs_object option"
  | BathymetryCrs "crs_object option"
  | TransformMatches bool
  | SatelliteTransform affine
  | BathymetryTransform affine
  | ShapeMatches bool
  | SatelliteShape "nat \<times> nat"
  | BathymetryShape "nat \<times> nat"
  | Rule
  | PerfectlyAligned
  | NotAligned
  | ErrorOccurred

record alignment_report =
  crs_match :: bool
  transform_match :: bool
  shape_match :: bool
  printed :: "line list"

text \<open>Lines 16 to 41: the body of the two \<open>with\<close> blocks, on the two open datasets.\<close>

definition check_alignment :: "dataset \<Rightarrow> dataset \<Rightarrow> alignment_report" where
  "check_alignment sat_src bathy_src =
     (let crs_match = crs_eq (crs sat_src) (crs bathy_src);
          out1 = [CrsMatches crs_match]
                 @ (if \<not> crs_match
                    then [SatelliteCrs (crs sat_src), BathymetryCrs (crs bathy_src)] else []);
          transform_match = allclose (transform sat_src) (transform bathy_src);
          out2 = [TransformMatches transform_match]
                 @ (if \<not> transform_match
                    then [SatelliteTransform (transform sat_src),
                          BathymetryTransform (transform bathy_src)] else []);
          shape_match = (shape sat_src = shape bathy_src);
          out3 = [ShapeMatches shape_match]
                 @ (if \<not> shape_match
                    then [SatelliteShape (shape sat_src), BathymetryShape (shape bathy_src)]
                    else []);
          out4 = [Rule]
                 @ (if crs_match \<and> transform_match \<and> shape_match
                    then [PerfectlyAligned] else [NotAligned])
      in \<lparr>crs_match = crs_match, transform_match = transform_match,
          shape_match = shape_match, printed = out1 @ out2 @ out3 @ out4\<rparr>)"

text \<open>
  The whole script: the opening message, then the checks if both files open, and the
  error message of the \<open>except\<close> clause if one of them does not.
\<close>

definition alignment_script :: "dataset option \<Rightarrow> dataset option \<Rightarrow> line list" where
  "alignment_script sat_file bathy_file =
     Verifying #
     (case sat_file of
        None \<Rightarrow> [ErrorOccurred]
      | Some sat_src \<Rightarrow>
          (case bathy_file of
             None \<Rightarrow> [ErrorOccurred]
           | Some bathy_src \<Rightarrow> printed (check_alignment sat_src bathy_src)))"

section \<open>Resampler/Reprojector (reproject.py)\<close>

text \<open>A two-dimensional array: shape (rows, columns) and the elements in row-major order.\<close>

record 'a array2 =
  shape2 :: "nat \<times> nat"
  flat2 :: "'a list"

definition at2 :: "'a array2 \<Rightarrow> nat \<Rightarrow> nat \<Rightarrow> 'a" where
  "at2 a r c = (case shape2 a of (rows, cols) \<Rightarrow> flat2 a ! (r * cols + c))"

text \<open>\<open>np.full((rows, cols), v)\<close>.\<close>

definition full :: "nat \<times> nat \<Rightarrow> 'a \<Rightarrow> 'a array2" where
  "full sh v = (case sh of (rows, cols) \<Rightarrow> \<lparr>shape2 = sh, flat2 = replicate (rows * cols) v\<rparr>)"

text \<open>The entries of a rasterio profile that the script reads or updates.\<close>

datatype dtype = UInt8 | UInt16 | Int16 | Float32 | Float64

record profile =
  p_dtype :: dtype
  p_count :: nat
  p_nodata :: "real option"
  p_crs :: "string option"
  p_transform :: affine
  p_width :: nat
  p_height :: nat

text \<open>The source of the warp, \<open>rasterio.band(slave, 1)\<close>: the first band of the open file.\<close>

record band =
  b_data :: "real array2"
  b_nodata :: "real option"

text \<open>
  The two steps of the warp that belong to GDAL. \<open>locate\<close> maps the centre of the
  destination pixel (row, column) back to a position (x across the columns, y down the
  rows) in the pixel grid of the source, through the destination transform, the two
  coordinate reference systems and the source transform. \<open>bilinear\<close> interpolates the
  source at such a position and yields nothing where no valid source sample contributes.
\<close>

record warper =
  locate :: "affine \<Rightarrow> string option \<Rightarrow> affine \<Rightarrow> string option \<Rightarrow> nat \<Rightarrow> nat \<Rightarrow> real \<times> real"
  bilinear :: "band \<Rightarrow> real \<times> real \<Rightarrow> real option"

text \<open>A position lies within the extent of the source when it is on its pixel grid.\<close>

definition in_extent :: "band \<Rightarrow> real \<times> real \<Rightarrow> bool" where
  "in_extent src p =
     (case (shape2 (b_data src), p) of
        ((rows, cols), (x, y)) \<Rightarrow> 0 \<le> x \<and> x \<le> real cols \<and> 0 \<le> y \<and> y \<le> real rows)"

text \<open>
  \<open>rasterio.warp.reproject\<close> into a destination array, which it first initialises with
  \<open>dst_nodata\<close> (\<open>init_dest_nodata\<close> is on by default) and then fills pixel by pixel
  wherever the source provides a value. The destination keeps its shape.
\<close>

definition warp_pixel :: "warper \<Rightarrow> band \<Rightarrow> affine \<Rightarrow> string option \<Rightarrow> affine \<Rightarrow>
    string option \<Rightarrow> real \<Rightarrow> nat \<Rightarrow> nat \<Rightarrow> real" where
  "warp_pixel g source src_transform src_crs dst_transform dst_crs dst_nodata r c =
     (let p = locate g dst_transform dst_crs src_transform src_crs r c
      in if in_extent source p
         then (case bilinear g source p of Some v \<Rightarrow> v | None \<Rightarrow> dst_nodata)
         else dst_nodata)"

definition reproject :: "warper \<Rightarrow> band \<Rightarrow> real array2 \<Rightarrow> affine \<Rightarrow> string option \<Rightarrow>
    affine \<Rightarrow> string option \<Rightarrow> real \<Rightarrow> real array2" where
  "reproject g source destination src_transform src_crs dst_transform dst_crs dst_nodata =
     (case shape2 destination of (rows, cols) \<Rightarrow>
        \<lparr>shape2 = (rows, cols),
         flat2 = concat (map (\<lambda>r. map (\<lambda>c. warp_pixel g source src_transform src_crs
                     dst_transform dst_crs dst_nodata r c) [0..<cols]) [0..<rows])\<rparr>)"

text \<open>The in-script constant \<open>OUTPUT_NODATA_VALUE\<close>.\<close>

definition OUTPUT_NODATA_VALUE :: real where
  "OUTPUT_NODATA_VALUE = -9999"

text \<open>
  The body of the script, lines 18 to 54, on the open master (through its profile) and the
  open slave (its first band, transform and CRS): the profile and the array written to
  the new file.
\<close>

record slave_dataset =
  s_band1 :: band
  s_transform :: affine
  s_crs :: "string option"

definition resample_to_master :: "warper \<Rightarrow> profile \<Rightarrow> slave_dataset \<Rightarrow> profile \<times> real array2" where
  "resample_to_master g master slave =
     (let master_profile = master;
          master_crs = p_crs master;
          master_transform = p_transform master;
          master_width = p_width master;
          master_height = p_height master;
          aligned_array = full (master_height, master_width) OUTPUT_NODATA_VALUE;
          aligned_array = reproject g (s_band1 slave) aligned_array (s_transform slave)
                            (s_crs slave) master_transform master_crs OUTPUT_NODATA_VALUE;
          master_profile = master_profile\<lparr>p_dtype := Float32, p_count := 1,
                             p_nodata := Some OUTPUT_NODATA_VALUE\<rparr>
      in (master_profile, aligned_array))"

section \<open>Template-Aligned Grayscale Converter (cvt2gray.py)\<close>

text \<open>
  A Pillow image: its mode, its size as (width, height) and its samples. Mode \<open>L\<close> is
  the single-channel 8-bit grayscale mode.
\<close>

datatype mode = L | RGB | RGBA | P

record image =
  img_mode :: mode
  img_size :: "nat \<times> nat"
  img_data :: "nat list"

text \<open>
  A stored file, by what each library reads from it: \<open>rasterio.open\<close> yields a dataset
  or fails, \<open>Image.open\<close> yields an image or fails. A path that is not in the file
  system does not exist.
\<close>

record stored_file =
  as_dataset :: "dataset option"
  as_image :: "image option"

type_synonym file_system = "string \<Rightarrow> stored_file option"

datatype error = FileNotFoundError | ValueError string | RasterioIOError

text \<open>
  The pixel arithmetic of Pillow: the luminance transform of \<open>convert('L')\<close> and the
  Lanczos filter of \<open>resize\<close>, which computes the samples of an image of the requested
  size.
\<close>

record pillow =
  luminance :: "image \<Rightarrow> nat list"
  lanczos :: "image \<Rightarrow> nat \<times> nat \<Rightarrow> nat list"

definition convert_L :: "pillow \<Rightarrow> image \<Rightarrow> image" where
  "convert_L lib img = \<lparr>img_mode = L, img_size = img_size img, img_data = luminance lib img\<rparr>"

text \<open>\<open>resize\<close> refuses a size with a zero side; otherwise the result has the size asked for.\<close>

definition resize :: "pillow \<Rightarrow> image \<Rightarrow> nat \<times> nat \<Rightarrow> image option" where
  "resize lib img target =
     (if fst target < 1 \<or> snd target < 1 then None
      else Some \<lparr>img_mode = img_mode img, img_size = target, img_data = lanczos lib img target\<rparr>)"

text \<open>
  \<open>aligned_img.save(output_path)\<close>. Whether Pillow can write an image at a path (the
  directory is there, the extension names a format it writes) is a fact of the
  environment, given by \<open>can_write\<close>; where it cannot, \<open>save\<close> raises and the file
  system is as before. The PNG that is written reads back as the image through Pillow,
  and through rasterio as an ungeoreferenced dataset of the image's rows and columns.
\<close>

definition written_image :: "image \<Rightarrow> stored_file" where
  "written_image img =
     \<lparr>as_dataset = Some \<lparr>crs = None,
                          transform = \<lparr>coef_a = 1, coef_b = 0, coef_c = 0, coef_d = 0,
                                        coef_e = 1, coef_f = 0\<rparr>,
                          shape = (snd (img_size img), fst (img_size img))\<rparr>,
      as_image = Some img\<rparr>"

definition save :: "(string \<Rightarrow> bool) \<Rightarrow> file_system \<Rightarrow> image \<Rightarrow> string \<Rightarrow> file_system option" where
  "save can_write fs img output_path =
     (if can_write output_path then Some (fs(output_path \<mapsto> written_image img)) else None)"

text \<open>
  \<open>align_and_convert\<close>: the missing-file error is raised before the \<open>try\<close>; any
  failure inside the \<open>try\<close> (the template or the image cannot be read, the resize or
  the save fails) is caught and printed, and the file system is left as it was. The
  function returns nothing; its result here is the file system after the call.
\<close>

definition align_and_convert :: "pillow \<Rightarrow> (string \<Rightarrow> bool) \<Rightarrow> file_system \<Rightarrow> string \<Rightarrow>
    string \<Rightarrow> string \<Rightarrow> error + file_system" where
  "align_and_convert lib can_write fs generative_path template_path output_path =
     (case (fs generative_path, fs template_path) of
        (Some generative_file, Some template_file) \<Rightarrow>
          (case as_dataset template_file of
             None \<Rightarrow> Inr fs
           | Some template_src \<Rightarrow>
               (let target_shape = shape template_src in
                case as_image generative_file of
                  None \<Rightarrow> Inr fs
                | Some img \<Rightarrow>
                    (let grayscale_img = convert_L lib img;
                         target_size_pil = (snd target_shape, fst target_shape)
                     in case resize lib grayscale_img target_size_pil of
                          None \<Rightarrow> Inr fs
                        | Some aligned_img \<Rightarrow>
                            (case save can_write fs aligned_img output_path of
                               None \<Rightarrow> Inr fs
                             | Some fs' \<Rightarrow> Inr fs'))))
      | _ \<Rightarrow> Inl FileNotFoundError)"

section \<open>Accuracy Analyzer (analyze_result.py)\<close>

subsection \<open>Loading\<close>

text \<open>
  What the analyzer reads from a file that rasterio opens: the shape, the first band in
  row-major order and the declared no-data value. A file that exists may still be one
  that rasterio cannot open.
\<close>

record raster =
  r_shape :: "nat \<times> nat"
  r_band1 :: "real list"
  r_nodata :: "real option"

datatype raster_file = Readable raster | Unreadable

type_synonym raster_store = "string \<Rightarrow> raster_file option"

record loaded =
  ld_predicted_array :: "real array2"
  ld_truth_array :: "real array2"
  ld_predicted_flat :: "real list"
  ld_truth_flat :: "real list"
  ld_mask :: "bool array2"

text \<open>Indexing an array with a boolean array of its shape: the selected elements, in order.\<close>

definition boolean_index :: "'a array2 \<Rightarrow> bool array2 \<Rightarrow> 'a list" where
  "boolean_index a m = map fst (filter snd (zip (flat2 a) (flat2 m)))"

definition shape_mismatch :: string where
  "shape_mismatch = ''Error: Shape mismatch between predicted image and ground truth!''"

definition load_and_prepare_data :: "raster_store \<Rightarrow> string \<Rightarrow> string \<Rightarrow> error + loaded" where
  "load_and_prepare_data fs predicted_path truth_path =
     (case (fs predicted_path, fs truth_path) of
        (Some predicted_file, Some truth_file) \<Rightarrow>
          (case (predicted_file, truth_file) of
             (Readable pred_src, Readable truth_src) \<Rightarrow>
               if r_shape pred_src \<noteq> r_shape truth_src
               then Inl (ValueError shape_mismatch)
               else
                 (let predicted_array = \<lparr>shape2 = r_shape pred_src, flat2 = r_band1 pred_src\<rparr>;
                      truth_array = \<lparr>shape2 = r_shape truth_src, flat2 = r_band1 truth_src\<rparr>;
                      nodata_value = r_nodata truth_src;
                      mask = (case nodata_value of
                                Some nd \<Rightarrow> \<lparr>shape2 = shape2 truth_array,
                                            flat2 = map (\<lambda>v. v \<noteq> nd) (flat2 truth_array)\<rparr>
                              | None \<Rightarrow> \<lparr>shape2 = shape2 truth_array,
                                         flat2 = map (\<lambda>v. True) (flat2 truth_array)\<rparr>);
                      predicted_flat = boolean_index predicted_array mask;
                      truth_flat = boolean_index truth_array mask
                  in Inr \<lparr>ld_predicted_array = predicted_array,
                          ld_truth_array = truth_array,
                          ld_predicted_flat = predicted_flat, ld_truth_flat = truth_flat,
                          ld_mask = mask\<rparr>)
           | _ \<Rightarrow> Inl RasterioIOError)
      | _ \<Rightarrow> Inl FileNotFoundError)"

subsection \<open>The statistics the analysis calls\<close>

definition mean :: "real list \<Rightarrow> real" where
  "mean xs = sum_list xs / real (length xs)"

definition dot :: "real list \<Rightarrow> real list \<Rightarrow> real" where
  "dot xs ys = sum_list (map2 (*) xs ys)"

definition centred :: "real list \<Rightarrow> real list" where
  "centred xs = map (\<lambda>x. x - mean xs) xs"

text \<open>
  \<open>scipy.stats.pearsonr\<close>: it refuses inputs of different lengths or of fewer than two
  elements, returns NaN (here \<open>None\<close>) when one input is constant, and otherwise the
  dot product of the two centred and normalised inputs, clamped to [-1, 1]. The p-value
  it also returns needs the incomplete beta function and is left out; no statement below
  concerns it.
\<close>

definition too_short :: string where
  "too_short = ''x and y must have length at least 2.''"

definition same_length :: string where
  "same_length = ''x and y must have the same length.''"

definition is_constant :: "real list \<Rightarrow> bool" where
  "is_constant xs = list_all (\<lambda>x. x = hd xs) xs"

definition pearsonr :: "real list \<Rightarrow> real list \<Rightarrow> error + real option" where
  "pearsonr x y =
     (if length x \<noteq> length y then Inl (ValueError same_length)
      else if length x < 2 then Inl (ValueError too_short)
      else if is_constant x \<or> is_constant y then Inr None
      else
        (let xm = centred x; ym = centred y;
             normxm = sqrt (dot xm xm); normym = sqrt (dot ym ym);
             r = dot (map (\<lambda>v. v / normxm) xm) (map (\<lambda>v. v / normym) ym)
         in Inr (Some (max (min r 1) (-1)))))"

text \<open>
  \<open>LinearRegression().fit(X, y)\<close> on one feature, with an intercept: both inputs are
  centred, the coefficient is the least-squares solution of minimal norm for the centred
  data (zero when the centred feature vanishes), and the intercept restores the offsets.
\<close>

record regression =
  reg_coef :: real
  reg_intercept :: real

definition fit :: "real list \<Rightarrow> real list \<Rightarrow> regression" where
  "fit X y =
     (let X_offset = mean X; y_offset = mean y;
          Xc = centred X; yc = centred y;
          coef = (if dot Xc Xc = 0 then 0 else dot Xc yc / dot Xc Xc)
      in \<lparr>reg_coef = coef, reg_intercept = y_offset - X_offset * coef\<rparr>)"

definition predict :: "regression \<Rightarrow> real list \<Rightarrow> real list" where
  "predict reg X = map (\<lambda>x. x * reg_coef reg + reg_intercept reg) X"

definition mean_squared_error :: "real list \<Rightarrow> real list \<Rightarrow> real" where
  "mean_squared_error y_true y_pred = mean (map2 (\<lambda>t p. (t - p)\<^sup>2) y_true y_pred)"

definition mean_absolute_error :: "real list \<Rightarrow> real list \<Rightarrow> real" where
  "mean_absolute_error y_true y_pred = mean (map2 (\<lambda>t p. \<bar>t - p\<bar>) y_true y_pred)"

subsection \<open>Analysis, report and plots\<close>

record results =
  pearson_r :: "real option"
  rmse :: real
  mae :: real
  slope :: real
  intercept :: real
  calibrated_predictions :: "real list"
  res_predicted_flat :: "real list"
  res_truth_flat :: "real list"

definition perform_quantitative_analysis :: "real list \<Rightarrow> real list \<Rightarrow> error + results" where
  "perform_quantitative_analysis predicted_flat truth_flat =
     (case pearsonr predicted_flat truth_flat of
        Inl e \<Rightarrow> Inl e
      | Inr corr \<Rightarrow>
          (let reg = fit predicted_flat truth_flat;
               m = reg_coef reg; c = reg_intercept reg;
               calibrated_predictions = predict reg predicted_flat;
               rmse = sqrt (mean_squared_error truth_flat calibrated_predictions);
               mae = mean_absolute_error truth_flat calibrated_predictions
           in Inr \<lparr>pearson_r = corr, rmse = rmse, mae = mae, slope = m, intercept = c,
                   calibrated_predictions = calibrated_predictions,
                   res_predicted_flat = predicted_flat, res_truth_flat = truth_flat\<rparr>))"

text \<open>
  The residuals of the error histogram (line 131) and the mean printed in its title
  (line 135).
\<close>

definition errors :: "real list \<Rightarrow> results \<Rightarrow> real list" where
  "errors truth_flat res = map2 (-) truth_flat (calibrated_predictions res)"

definition histogram_mean :: "real list \<Rightarrow> results \<Rightarrow> real" where
  "histogram_mean truth_flat res = mean (errors truth_flat res)"

text \<open>
  The files a run leaves behind. \<open>save_report\<close> writes the report, then
  \<open>create_visualizations\<close> saves the four plots in turn; rendering itself is
  Matplotlib's and is taken to succeed. \<open>main\<close> catches every error of the pipeline and
  prints it.
\<close>

definition report_files :: "string list" where
  "report_files = [''analysis_results/analysis_report.txt'']"

definition plot_files :: "string list" where
  "plot_files = [''analysis_results/comparison_side_by_side.png'',
                 ''analysis_results/density_scatter_plot.png'',
                 ''analysis_results/error_map.png'',
                 ''analysis_results/error_histogram.png'']"

record run =
  failure :: "error option"
  written :: "string list"

definition PREDICTED_DEPTH_PATH :: string where
  "PREDICTED_DEPTH_PATH = ''output_rgb_image_for_model_depth_gray.png''"

definition GROUND_TRUTH_PATH :: string where
  "GROUND_TRUTH_PATH = ''bathymetry_aligned.tif''"

definition main :: "raster_store \<Rightarrow> run" where
  "main fs =
     (case load_and_prepare_data fs PREDICTED_DEPTH_PATH GROUND_TRUTH_PATH of
        Inl e \<Rightarrow> \<lparr>failure = Some e, written = []\<rparr>
      | Inr d \<Rightarrow>
          (case perform_quantitative_analysis (ld_predicted_flat d) (ld_truth_flat d) of
             Inl e \<Rightarrow> \<lparr>failure = Some e, written = []\<rparr>
           | Inr res \<Rightarrow> \<lparr>failure = None, written = report_files @ plot_files\<rparr>))"

section \<open>Properties of the Visualization Exporter\<close>

text \<open>The per-sample function is what the array pipeline applies to each element.\<close>

lemma rescale_sample_formula:
  "rescale_sample x
     = astype_uint8 (((clip x min_val max_val - min_val) / (max_val - min_val)) * 255)"
  by (simp add: rescale_sample_def scaled_sample_def scale_clipped_def clipped_sample_def)

lemma scaled_sample_range: "0 \<le> scaled_sample x \<and> scaled_sample x \<le> 255"
  by (simp add: scaled_sample_def scale_clipped_def clipped_sample_def clip_def min_val_def
      max_val_def min_def max_def)

lemma scaled_sample_mono: "a \<le> b \<Longrightarrow> scaled_sample a \<le> scaled_sample b"
  by (simp add: scaled_sample_def scale_clipped_def clipped_sample_def clip_def min_val_def
      max_val_def min_def max_def)

lemma trunc_zero_scaled: "trunc_zero (scaled_sample x) = \<lfloor>scaled_sample x\<rfloor>"
  using scaled_sample_range [of x] by (simp add: trunc_zero_def)

lemma floor_scaled_range: "0 \<le> \<lfloor>scaled_sample x\<rfloor> \<and> \<lfloor>scaled_sample x\<rfloor> \<le> 255"
proof -
  have "0 \<le> scaled_sample x" "scaled_sample x \<le> 255"
    using scaled_sample_range [of x] by simp_all
  then show ?thesis
    by (simp add: le_floor_iff floor_le_iff)
qed

lemma uint_rescale_sample: "uint (rescale_sample x) = \<lfloor>scaled_sample x\<rfloor>"
proof -
  have "uint (word_of_int \<lfloor>scaled_sample x\<rfloor> :: 8 word) = \<lfloor>scaled_sample x\<rfloor> mod 256"
    by (simp add: uint_word_of_int)
  also have "\<dots> = \<lfloor>scaled_sample x\<rfloor>"
    using floor_scaled_range [of x] by simp
  finally show ?thesis
    by (simp add: rescale_sample_def astype_uint8_def trunc_zero_scaled)
qed

text \<open>
  C4. The per-sample rescaling is monotonic: for samples \<open>a \<le> b\<close> (in particular for
  those within the clip range) the output for \<open>a\<close> is at most the output for \<open>b\<close>;
  every sample strictly below \<open>min_val\<close> is written as 0 and every sample at or above
  \<open>max_val\<close> is written as 255.
\<close>

theorem rescale_sample_monotonic:
  "(min_val \<le> a \<and> a \<le> b \<and> b \<le> max_val \<longrightarrow> rescale_sample a \<le> rescale_sample b)
   \<and> (x < min_val \<longrightarrow> rescale_sample x = 0)
   \<and> (max_val \<le> y \<longrightarrow> rescale_sample y = 255)"
proof (intro conjI impI)
  assume "min_val \<le> a \<and> a \<le> b \<and> b \<le> max_val"
  then have "a \<le> b" by simp
  then have "\<lfloor>scaled_sample a\<rfloor> \<le> \<lfloor>scaled_sample b\<rfloor>"
    by (intro floor_mono scaled_sample_mono)
  then show "rescale_sample a \<le> rescale_sample b"
    by (simp add: word_le_def uint_rescale_sample)
next
  assume "x < min_val"
  then have "scaled_sample x = 0"
    by (simp add: scaled_sample_def scale_clipped_def clipped_sample_def clip_def min_val_def
        max_val_def)
  then show "rescale_sample x = 0"
    by (simp add: rescale_sample_def astype_uint8_def trunc_zero_def)
next
  assume "max_val \<le> y"
  then have "scaled_sample y = 255"
    by (simp add: scaled_sample_def scale_clipped_def clipped_sample_def clip_def min_val_def
        max_val_def)
  then show "rescale_sample y = 255"
    by (simp add: rescale_sample_def astype_uint8_def trunc_zero_def)
qed

theorem rescale_sample_monotonic_witness:
  "min_val \<le> 100 \<and> (100::real) \<le> 200 \<and> 200 \<le> max_val
   \<and> rescale_sample 100 \<le> rescale_sample 200
   \<and> -5 < min_val \<and> rescale_sample (-5) = 0
   \<and> max_val \<le> 2000 \<and> rescale_sample 2000 = 255"
  using rescale_sample_monotonic [of 100 200 "-5" 2000]
  by (simp add: min_val_def max_val_def)

subsection \<open>Axis order of the exported array\<close>

lemma block_index_less: "i < n \<Longrightarrow> k < m \<Longrightarrow> i * m + k < n * (m::nat)"
proof -
  assume a: "i < n" "k < m"
  then have "Suc i * m \<le> n * m"
    by (intro mult_le_mono1) simp
  with a show ?thesis by simp
qed

lemma length_concat_blocks:
  "(\<And>i. i < n \<Longrightarrow> length (g i) = m) \<Longrightarrow> length (concat (map g [0..<n])) = n * m"
  by (induction n) simp_all

lemma nth_concat_blocks:
  "(\<And>i. i < n \<Longrightarrow> length (g i) = m) \<Longrightarrow> i < n \<Longrightarrow> k < m \<Longrightarrow>
   concat (map g [0..<n]) ! (i * m + k) = g i ! k"
proof (induction n)
  case 0
  then show ?case by simp
next
  case (Suc n)
  have len: "length (concat (map g [0..<n])) = n * m"
    using Suc.prems(1) by (intro length_concat_blocks) simp
  show ?case
  proof (cases "i < n")
    case True
    then have "i * m + k < n * m"
      using Suc.prems(3) by (rule block_index_less)
    moreover have "concat (map g [0..<n]) ! (i * m + k) = g i ! k"
      using True Suc.prems by (intro Suc.IH) simp_all
    ultimately show ?thesis
      by (simp add: nth_append len)
  next
    case False
    with Suc.prems have "i = n" by simp
    then show ?thesis
      using Suc.prems by (simp add: nth_append len)
  qed
qed

lemma shape3_transpose_120: "shape3 a = (d0, d1, d2) \<Longrightarrow> shape3 (transpose_120 a) = (d1, d2, d0)"
  by (simp add: transpose_120_def)

lemma length_transpose_120:
  "shape3 a = (d0, d1, d2) \<Longrightarrow> length (flat (transpose_120 a)) = d1 * d2 * d0"
proof -
  assume s: "shape3 a = (d0, d1, d2)"
  have inner: "\<And>i. length (concat (map (\<lambda>j. map (\<lambda>c. at3 a c i j) [0..<d0]) [0..<d2])) = d2 * d0"
    by (rule length_concat_blocks) simp
  have "length (concat (map (\<lambda>i. concat (map (\<lambda>j. map (\<lambda>c. at3 a c i j) [0..<d0])
                  [0..<d2])) [0..<d1])) = d1 * (d2 * d0)"
    by (rule length_concat_blocks) (rule inner)
  with s show ?thesis by (simp add: transpose_120_def)
qed

lemma at3_transpose_120:
  assumes s: "shape3 a = (d0, d1, d2)" and i: "i < d1" and j: "j < d2" and c: "c < d0"
  shows "at3 (transpose_120 a) i j c = at3 a c i j"
proof -
  let ?row = "\<lambda>i. concat (map (\<lambda>j. map (\<lambda>c. at3 a c i j) [0..<d0]) [0..<d2])"
  have inner: "\<And>i. length (?row i) = d2 * d0"
    by (rule length_concat_blocks) simp
  have jc: "j * d0 + c < d2 * d0"
    using j c by (rule block_index_less)
  have "concat (map ?row [0..<d1]) ! (i * (d2 * d0) + (j * d0 + c)) = ?row i ! (j * d0 + c)"
    using inner i jc by (intro nth_concat_blocks) simp_all
  also have "\<dots> = map (\<lambda>c. at3 a c i j) [0..<d0] ! c"
    using j c by (intro nth_concat_blocks) simp_all
  also have "\<dots> = at3 a c i j"
    using c by simp
  finally have "concat (map ?row [0..<d1]) ! ((i * d2 + j) * d0 + c) = at3 a c i j"
    by (simp add: algebra_simps)
  moreover have "flat (transpose_120 a) = concat (map ?row [0..<d1])"
    using s by (simp add: transpose_120_def)
  moreover have "at3 (transpose_120 a) i j c = flat (transpose_120 a) ! ((i * d2 + j) * d0 + c)"
    using shape3_transpose_120 [OF s] unfolding at3_def by simp
  ultimately show ?thesis
    by simp
qed

lemma at3_map_array3:
  assumes s: "shape3 a = (d0, d1, d2)" and len: "length (flat a) = d0 * d1 * d2"
    and i: "i < d0" and j: "j < d1" and k: "k < d2"
  shows "at3 (map_array3 f a) i j k = f (at3 a i j k)"
proof -
  have "i * d1 + j < d0 * d1"
    using i j by (rule block_index_less)
  then have "(i * d1 + j) * d2 + k < d0 * d1 * d2"
    using k by (rule block_index_less)
  then show ?thesis
    using s len by (simp add: at3_def map_array3_def)
qed

text \<open>
  C5. For a band-major input array of shape (bands, height, width), the exporter's array
  has shape (height, width, bands), and its value at (h, w, c) is the 8-bit truncation of
  \<open>(clip(input[c, h, w], min, max) - min) / (max - min) * 255\<close>.
\<close>

theorem rgb_data_hwc_layout:
  assumes s: "shape3 raw_data = (bands, height, width)"
    and len: "length (flat raw_data) = bands * height * width"
  shows "shape3 (rgb_data_hwc raw_data) = (height, width, bands)
    \<and> length (flat (rgb_data_hwc raw_data)) = height * width * bands
    \<and> (\<forall>h < height. \<forall>w < width. \<forall>c < bands.
          at3 (rgb_data_hwc raw_data) h w c =
            astype_uint8 (((clip (at3 raw_data c h w) min_val max_val - min_val)
                            / (max_val - min_val)) * 255))"
proof -
  have s1: "shape3 (clipped_data raw_data) = (bands, height, width)"
    and l1: "length (flat (clipped_data raw_data)) = bands * height * width"
    using s len by (simp_all add: clipped_data_def map_array3_def)
  have s2: "shape3 (scaled_data raw_data) = (bands, height, width)"
    and l2: "length (flat (scaled_data raw_data)) = bands * height * width"
    using s1 l1 by (simp_all add: scaled_data_def map_array3_def)
  have s3: "shape3 (rgb_data_uint8 raw_data) = (bands, height, width)"
    using s2 by (simp add: rgb_data_uint8_def map_array3_def)
  have shape: "shape3 (rgb_data_hwc raw_data) = (height, width, bands)"
    unfolding rgb_data_hwc_def using s3 by (rule shape3_transpose_120)
  have length: "length (flat (rgb_data_hwc raw_data)) = height * width * bands"
    unfolding rgb_data_hwc_def using s3 by (rule length_transpose_120)
  have elem: "at3 (rgb_data_hwc raw_data) h w c =
            astype_uint8 (((clip (at3 raw_data c h w) min_val max_val - min_val)
                            / (max_val - min_val)) * 255)"
    if "h < height" "w < width" "c < bands" for h w c
  proof -
    have "at3 (rgb_data_hwc raw_data) h w c = at3 (rgb_data_uint8 raw_data) c h w"
      unfolding rgb_data_hwc_def using s3 that by (intro at3_transpose_120)
    also have "\<dots> = astype_uint8 (at3 (scaled_data raw_data) c h w)"
      unfolding rgb_data_uint8_def using s2 l2 that by (intro at3_map_array3)
    also have "at3 (scaled_data raw_data) c h w =
        ((at3 (clipped_data raw_data) c h w - min_val) / (max_val - min_val)) * 255"
      unfolding scaled_data_def using s1 l1 that by (intro at3_map_array3)
    also have "at3 (clipped_data raw_data) c h w = clip (at3 raw_data c h w) min_val max_val"
      unfolding clipped_data_def using s len that by (intro at3_map_array3)
    finally show ?thesis .
  qed
  from shape length elem show ?thesis by blast
qed

theorem rgb_data_hwc_layout_witness:
  "shape3 (rgb_data_hwc \<lparr>shape3 = (2, 1, 2), flat = [0, 750, 1500, 3000]\<rparr>) = (1, 2, 2)
   \<and> length (flat (rgb_data_hwc \<lparr>shape3 = (2, 1, 2), flat = [0, 750, 1500, 3000]\<rparr>)) = 4
   \<and> at3 (rgb_data_hwc \<lparr>shape3 = (2, 1, 2), flat = [0, 750, 1500, 3000]\<rparr>) 0 1 0 = 127
   \<and> at3 (rgb_data_hwc \<lparr>shape3 = (2, 1, 2), flat = [0, 750, 1500, 3000]\<rparr>) 0 1 1 = 255"
proof -
  let ?raw = "\<lparr>shape3 = (2, 1, 2), flat = [0, 750, 1500, 3000]\<rparr> :: real array3"
  have s: "shape3 ?raw = (2, 1, 2)" by simp
  have len: "length (flat ?raw) = 2 * 1 * 2" by simp
  have v0: "at3 ?raw 0 0 1 = 750" and v1: "at3 ?raw 1 0 1 = 3000"
    by (simp_all add: at3_def)
  have c0: "astype_uint8 (((clip 750 min_val max_val - min_val) / (max_val - min_val)) * 255)
      = 127"
    by (simp add: clip_def min_val_def max_val_def astype_uint8_def trunc_zero_def)
  have c1: "astype_uint8 (((clip 3000 min_val max_val - min_val) / (max_val - min_val)) * 255)
      = 255"
    by (simp add: clip_def min_val_def max_val_def astype_uint8_def trunc_zero_def)
  from rgb_data_hwc_layout [OF s len] v0 v1 c0 c1 show ?thesis
    by simp
qed

section \<open>Properties of the Alignment Checker\<close>

lemma crs_eq_iff: "crs_eq a b \<longleftrightarrow> map_option crs_system a = map_option crs_system b"
  by (cases a; cases b) (simp_all add: crs_eq_def)

lemma allclose_iff:
  "allclose s t \<longleftrightarrow>
     list_all2 (\<lambda>x y. \<bar>x - y\<bar> \<le> 1 / 10 ^ 8 + (1 / 10 ^ 5) * \<bar>y\<bar>)
       (coefficients s) (coefficients t)"
proof -
  have "isclose = (\<lambda>x y. \<bar>x - y\<bar> \<le> 1 / 10 ^ 8 + (1 / 10 ^ 5) * \<bar>y\<bar>)"
    by (simp add: isclose_def atol_def rtol_def fun_eq_iff)
  then show ?thesis
    by (simp add: allclose_def)
qed

text \<open>
  C6. For two rasters whose CRS values are equal (both undeclared, or denoting the same
  coordinate system), whose transforms are element-wise equal within the tolerance of
  \<open>np.allclose\<close> (absolute \<open>1e-8\<close>, relative \<open>1e-5\<close>) and whose (rows, columns) are
  equal, the checker reports all three checks true and reports the pair as aligned,
  printing nothing else.
\<close>

theorem aligned_rasters_all_true:
  assumes "map_option crs_system (crs sat_src) = map_option crs_system (crs bathy_src)"
    and "list_all2 (\<lambda>x y. \<bar>x - y\<bar> \<le> 1 / 10 ^ 8 + (1 / 10 ^ 5) * \<bar>y\<bar>)
           (coefficients (transform sat_src)) (coefficients (transform bathy_src))"
    and "shape sat_src = shape bathy_src"
  shows "check_alignment sat_src bathy_src =
           \<lparr>crs_match = True, transform_match = True, shape_match = True,
            printed = [CrsMatches True, TransformMatches True, ShapeMatches True,
                       Rule, PerfectlyAligned]\<rparr>"
  using assms by (simp add: check_alignment_def crs_eq_iff allclose_iff)

text \<open>
  C7. For two rasters that differ in exactly one of CRS, transform and dimensions, the
  other two matching, the checker reports exactly that check false and the other two
  true, and prints both values of the mismatched attribute and of no other. Two CRS
  differ when they do not denote the same coordinate system (or only one file declares
  one); transforms match when they are equal within the tolerance and differ when they
  are not, as in the specification's definition of aligned rasters; dimensions differ
  when the (rows, columns) pairs are unequal.
\<close>

theorem one_mismatch_reported:
  "(map_option crs_system (crs sat_src) \<noteq> map_option crs_system (crs bathy_src)
      \<and> list_all2 (\<lambda>x y. \<bar>x - y\<bar> \<le> 1 / 10 ^ 8 + (1 / 10 ^ 5) * \<bar>y\<bar>)
           (coefficients (transform sat_src)) (coefficients (transform bathy_src))
      \<and> shape sat_src = shape bathy_src
    \<longrightarrow> check_alignment sat_src bathy_src =
           \<lparr>crs_match = False, transform_match = True, shape_match = True,
            printed = [CrsMatches False, SatelliteCrs (crs sat_src),
                       BathymetryCrs (crs bathy_src), TransformMatches True,
                       ShapeMatches True, Rule, NotAligned]\<rparr>)
   \<and> (map_option crs_system (crs sat_src) = map_option crs_system (crs bathy_src)
      \<and> \<not> list_all2 (\<lambda>x y. \<bar>x - y\<bar> \<le> 1 / 10 ^ 8 + (1 / 10 ^ 5) * \<bar>y\<bar>)
             (coefficients (transform sat_src)) (coefficients (transform bathy_src))
      \<and> shape sat_src = shape bathy_src
    \<longrightarrow> check_alignment sat_src bathy_src =
           \<lparr>crs_match = True, transform_match = False, shape_match = True,
            printed = [CrsMatches True, TransformMatches False,
                       SatelliteTransform (transform sat_src),
                       BathymetryTransform (transform bathy_src),
                       ShapeMatches True, Rule, NotAligned]\<rparr>)
   \<and> (map_option crs_system (crs sat_src) = map_option crs_system (crs bathy_src)
      \<and> list_all2 (\<lambda>x y. \<bar>x - y\<bar> \<le> 1 / 10 ^ 8 + (1 / 10 ^ 5) * \<bar>y\<bar>)
           (coefficients (transform sat_src)) (coefficients (transform bathy_src))
      \<and> shape sat_src \<noteq> shape bathy_src
    \<longrightarrow> check_alignment sat_src bathy_src =
           \<lparr>crs_match = True, transform_match = True, shape_match = False,
            printed = [CrsMatches True, TransformMatches True, ShapeMatches False,
                       SatelliteShape (shape sat_src), BathymetryShape (shape bathy_src),
                       Rule, NotAligned]\<rparr>)"
  by (simp add: check_alignment_def crs_eq_iff allclose_iff)

theorem aligned_rasters_all_true_witness:
  "check_alignment
     \<lparr>crs = Some \<lparr>crs_text = ''EPSG:3857'', crs_system = ''WGS 84 / Pseudo-Mercator''\<rparr>,
      transform = \<lparr>coef_a = 10, coef_b = 0, coef_c = 330000, coef_d = 0, coef_e = -10,
                   coef_f = 3100000\<rparr>,
      shape = (891, 800)\<rparr>
     \<lparr>crs = Some \<lparr>crs_text = ''EPSG:900913'', crs_system = ''WGS 84 / Pseudo-Mercator''\<rparr>,
      transform = \<lparr>coef_a = 10 + 1 / 10 ^ 7, coef_b = 0, coef_c = 330000, coef_d = 0,
                   coef_e = -10, coef_f = 3100000\<rparr>,
      shape = (891, 800)\<rparr>
   = \<lparr>crs_match = True, transform_match = True, shape_match = True,
      printed = [CrsMatches True, TransformMatches True, ShapeMatches True,
                 Rule, PerfectlyAligned]\<rparr>"
  by (rule aligned_rasters_all_true) (simp_all add: coefficients_def)

theorem one_mismatch_reported_witness:
  "check_alignment
     \<lparr>crs = Some \<lparr>crs_text = ''EPSG:32617'', crs_system = ''WGS 84 / UTM zone 17N''\<rparr>,
      transform = \<lparr>coef_a = 10, coef_b = 0, coef_c = 330000, coef_d = 0, coef_e = -10,
                   coef_f = 3100000\<rparr>,
      shape = (891, 800)\<rparr>
     \<lparr>crs = Some \<lparr>crs_text = ''EPSG:4326'', crs_system = ''WGS 84''\<rparr>,
      transform = \<lparr>coef_a = 10, coef_b = 0, coef_c = 330000, coef_d = 0, coef_e = -10,
                   coef_f = 3100000\<rparr>,
      shape = (891, 800)\<rparr>
   = \<lparr>crs_match = False, transform_match = True, shape_match = True,
      printed = [CrsMatches False,
                 SatelliteCrs (Some \<lparr>crs_text = ''EPSG:32617'',
                                      crs_system = ''WGS 84 / UTM zone 17N''\<rparr>),
                 BathymetryCrs (Some \<lparr>crs_text = ''EPSG:4326'', crs_system = ''WGS 84''\<rparr>),
                 TransformMatches True, ShapeMatches True, Rule, NotAligned]\<rparr>
   \<and> check_alignment
     \<lparr>crs = Some \<lparr>crs_text = ''EPSG:32617'', crs_system = ''WGS 84 / UTM zone 17N''\<rparr>,
      transform = \<lparr>coef_a = 10, coef_b = 0, coef_c = 330000, coef_d = 0, coef_e = -10,
                   coef_f = 3100000\<rparr>,
      shape = (891, 800)\<rparr>
     \<lparr>crs = Some \<lparr>crs_text = ''EPSG:32617'', crs_system = ''WGS 84 / UTM zone 17N''\<rparr>,
      transform = \<lparr>coef_a = 1, coef_b = 0, coef_c = 330000, coef_d = 0, coef_e = -1,
                   coef_f = 3100000\<rparr>,
      shape = (891, 800)\<rparr>
   = \<lparr>crs_match = True, transform_match = False, shape_match = True,
      printed = [CrsMatches True, TransformMatches False,
                 SatelliteTransform \<lparr>coef_a = 10, coef_b = 0, coef_c = 330000, coef_d = 0,
                   coef_e = -10, coef_f = 3100000\<rparr>,
                 BathymetryTransform \<lparr>coef_a = 1, coef_b = 0, coef_c = 330000, coef_d = 0,
                   coef_e = -1, coef_f = 3100000\<rparr>,
                 ShapeMatches True, Rule, NotAligned]\<rparr>
   \<and> check_alignment
     \<lparr>crs = Some \<lparr>crs_text = ''EPSG:32617'', crs_system = ''WGS 84 / UTM zone 17N''\<rparr>,
      transform = \<lparr>coef_a = 10, coef_b = 0, coef_c = 330000, coef_d = 0, coef_e = -10,
                   coef_f = 3100000\<rparr>,
      shape = (891, 800)\<rparr>
     \<lparr>crs = Some \<lparr>crs_text = ''EPSG:32617'', crs_system = ''WGS 84 / UTM zone 17N''\<rparr>,
      transform = \<lparr>coef_a = 10, coef_b = 0, coef_c = 330000, coef_d = 0, coef_e = -10,
                   coef_f = 3100000\<rparr>,
      shape = (8910, 8000)\<rparr>
   = \<lparr>crs_match = True, transform_match = True, shape_match = False,
      printed = [CrsMatches True, TransformMatches True, ShapeMatches False,
                 SatelliteShape (891, 800), BathymetryShape (8910, 8000),
                 Rule, NotAligned]\<rparr>"
proof -
  let ?utm = "Some \<lparr>crs_text = ''EPSG:32617'', crs_system = ''WGS 84 / UTM zone 17N''\<rparr>"
  let ?geo = "Some \<lparr>crs_text = ''EPSG:4326'', crs_system = ''WGS 84''\<rparr>"
  let ?t = "\<lparr>coef_a = 10, coef_b = 0, coef_c = 330000, coef_d = 0, coef_e = -10,
             coef_f = 3100000\<rparr>"
  let ?u = "\<lparr>coef_a = 1, coef_b = 0, coef_c = 330000, coef_d = 0, coef_e = -1,
             coef_f = 3100000\<rparr>"
  let ?sat = "\<lparr>crs = ?utm, transform = ?t, shape = (891, 800)\<rparr>"
  have same: "list_all2 (\<lambda>x y. \<bar>x - y\<bar> \<le> 1 / 10 ^ 8 + (1 / 10 ^ 5) * \<bar>y\<bar>)
      (coefficients ?t) (coefficients ?t)"
    by (simp add: coefficients_def)
  have other: "\<not> list_all2 (\<lambda>x y. \<bar>x - y\<bar> \<le> 1 / 10 ^ 8 + (1 / 10 ^ 5) * \<bar>y\<bar>)
      (coefficients ?t) (coefficients ?u)"
    by (simp add: coefficients_def)
  show ?thesis
    using one_mismatch_reported
            [of ?sat "\<lparr>crs = ?geo, transform = ?t, shape = (891, 800)\<rparr>"]
          one_mismatch_reported
            [of ?sat "\<lparr>crs = ?utm, transform = ?u, shape = (891, 800)\<rparr>"]
          one_mismatch_reported
            [of ?sat "\<lparr>crs = ?utm, transform = ?t, shape = (8910, 8000)\<rparr>"]
          same other
    by simp
qed

section \<open>Properties of the Resampler/Reprojector\<close>

lemma shape2_reproject:
  "shape2 (reproject g source destination st sc dt dc nd) = shape2 destination"
  by (simp add: reproject_def split: prod.split)

lemma at2_reproject:
  assumes "shape2 destination = (rows, cols)" and "r < rows" and "c < cols"
  shows "at2 (reproject g source destination st sc dt dc nd) r c
           = warp_pixel g source st sc dt dc nd r c"
proof -
  let ?row = "\<lambda>r. map (\<lambda>c. warp_pixel g source st sc dt dc nd r c) [0..<cols]"
  have "concat (map ?row [0..<rows]) ! (r * cols + c) = ?row r ! c"
    using assms(2,3) by (intro nth_concat_blocks) simp_all
  also have "\<dots> = warp_pixel g source st sc dt dc nd r c"
    using assms(3) by simp
  finally show ?thesis
    using assms(1) by (simp add: at2_def reproject_def)
qed

lemma warp_pixel_outside:
  "\<not> in_extent source (locate g dt dc st sc r c) \<Longrightarrow>
   warp_pixel g source st sc dt dc nd r c = nd"
  by (simp add: warp_pixel_def)

text \<open>
  C3. The profile written with the output raster declares the sentinel -9999.0 as its
  no-data value, and every output pixel whose back-mapped location falls outside the
  extent of the source raster holds exactly that sentinel.
\<close>

theorem resample_sentinel:
  "(case resample_to_master g master slave of
      (written_profile, written_array) \<Rightarrow>
        p_nodata written_profile = Some (-9999)
        \<and> shape2 written_array = (p_height master, p_width master)
        \<and> (\<forall>r < p_height master. \<forall>c < p_width master.
              \<not> in_extent (s_band1 slave)
                  (locate g (p_transform master) (p_crs master) (s_transform slave)
                     (s_crs slave) r c)
              \<longrightarrow> at2 written_array r c = -9999))"
proof -
  let ?dst = "full (p_height master, p_width master) OUTPUT_NODATA_VALUE"
  let ?out = "reproject g (s_band1 slave) ?dst (s_transform slave) (s_crs slave)
                (p_transform master) (p_crs master) OUTPUT_NODATA_VALUE"
  have sh: "shape2 ?dst = (p_height master, p_width master)"
    by (simp add: full_def)
  have res: "resample_to_master g master slave =
      (master\<lparr>p_dtype := Float32, p_count := 1, p_nodata := Some OUTPUT_NODATA_VALUE\<rparr>, ?out)"
    by (simp add: resample_to_master_def)
  have shape_out: "shape2 ?out = (p_height master, p_width master)"
    by (simp add: shape2_reproject sh)
  have px: "at2 ?out r c = OUTPUT_NODATA_VALUE"
    if "r < p_height master" "c < p_width master"
      "\<not> in_extent (s_band1 slave)
          (locate g (p_transform master) (p_crs master) (s_transform slave) (s_crs slave) r c)"
    for r c
    using that by (simp add: at2_reproject [OF sh] warp_pixel_outside)
  have nd: "OUTPUT_NODATA_VALUE = -9999"
    by (simp add: OUTPUT_NODATA_VALUE_def)
  show ?thesis
    unfolding res using shape_out px nd by simp
qed


theorem resample_sentinel_witness:
  "p_nodata (fst (resample_to_master
       \<lparr>locate = (\<lambda>dt dc st sc r c. (real c + 1 / 2, real r + 1 / 2)),
        bilinear = (\<lambda>b p. Some 7)\<rparr>
       \<lparr>p_dtype = UInt16, p_count = 3, p_nodata = None, p_crs = Some ''EPSG:32617'',
        p_transform = \<lparr>coef_a = 10, coef_b = 0, coef_c = 0, coef_d = 0, coef_e = -10,
                      coef_f = 0\<rparr>,
        p_width = 2, p_height = 1\<rparr>
       \<lparr>s_band1 = \<lparr>b_data = \<lparr>shape2 = (1, 1), flat2 = [7]\<rparr>, b_nodata = None\<rparr>,
        s_transform = \<lparr>coef_a = 10, coef_b = 0, coef_c = 0, coef_d = 0, coef_e = -10,
                       coef_f = 0\<rparr>,
        s_crs = Some ''EPSG:32617''\<rparr>)) = Some (-9999)
   \<and> at2 (snd (resample_to_master
       \<lparr>locate = (\<lambda>dt dc st sc r c. (real c + 1 / 2, real r + 1 / 2)),
        bilinear = (\<lambda>b p. Some 7)\<rparr>
       \<lparr>p_dtype = UInt16, p_count = 3, p_nodata = None, p_crs = Some ''EPSG:32617'',
        p_transform = \<lparr>coef_a = 10, coef_b = 0, coef_c = 0, coef_d = 0, coef_e = -10,
                      coef_f = 0\<rparr>,
        p_width = 2, p_height = 1\<rparr>
       \<lparr>s_band1 = \<lparr>b_data = \<lparr>shape2 = (1, 1), flat2 = [7]\<rparr>, b_nodata = None\<rparr>,
        s_transform = \<lparr>coef_a = 10, coef_b = 0, coef_c = 0, coef_d = 0, coef_e = -10,
                       coef_f = 0\<rparr>,
        s_crs = Some ''EPSG:32617''\<rparr>)) 0 1 = -9999"
proof -
  let ?g = "\<lparr>locate = (\<lambda>dt dc st sc r c. (real c + 1 / 2, real r + 1 / 2)),
        bilinear = (\<lambda>b p. Some 7)\<rparr> :: warper"
  let ?t = "\<lparr>coef_a = 10, coef_b = 0, coef_c = 0, coef_d = 0, coef_e = -10, coef_f = 0\<rparr>"
  let ?m = "\<lparr>p_dtype = UInt16, p_count = 3, p_nodata = None, p_crs = Some ''EPSG:32617'',
        p_transform = ?t, p_width = 2, p_height = 1\<rparr>"
  let ?b = "\<lparr>b_data = \<lparr>shape2 = (1, 1), flat2 = [7]\<rparr>, b_nodata = None\<rparr>"
  let ?s = "\<lparr>s_band1 = ?b, s_transform = ?t, s_crs = Some ''EPSG:32617''\<rparr>"
  have out: "\<not> in_extent ?b (locate ?g ?t (Some ''EPSG:32617'') ?t (Some ''EPSG:32617'') 0 1)"
    by (simp add: in_extent_def)
  show ?thesis
    using resample_sentinel [where g = ?g and master = ?m and slave = ?s] out
    by (simp add: case_prod_beta)
qed

section \<open>Properties of the Grayscale Converter\<close>

text \<open>
  C9. For every source image, whatever its own size, the image the converter saves is
  single-channel and its size is the template raster's (columns, rows), that is, its
  pixel dimensions are the template's (rows, columns); no other file changes. Both input
  files are present and readable, and the template, being a raster, has at least one row
  and one column. Where the output path cannot be written, the failing save is caught
  and nothing is written.
\<close>

theorem grayscale_matches_template:
  assumes "fs generative_path = Some generative_file"
    and "as_image generative_file = Some img"
    and "fs template_path = Some template_file"
    and "as_dataset template_file = Some template_src"
    and "shape template_src = (rows, cols)"
    and "0 < rows" and "0 < cols"
  shows "(can_write output_path \<longrightarrow>
            (\<exists>fs' saved aligned_img.
               align_and_convert lib can_write fs generative_path template_path output_path
                 = Inr fs'
               \<and> fs' output_path = Some saved
               \<and> as_image saved = Some aligned_img
               \<and> img_mode aligned_img = L
               \<and> img_size aligned_img = (cols, rows)
               \<and> (\<forall>p. p \<noteq> output_path \<longrightarrow> fs' p = fs p)))
         \<and> (\<not> can_write output_path \<longrightarrow>
               align_and_convert lib can_write fs generative_path template_path output_path
                 = Inr fs)"
  using assms
  by (simp add: align_and_convert_def resize_def convert_L_def save_def written_image_def
      Let_def)

theorem grayscale_matches_template_witness:
  "(\<exists>fs' saved aligned_img.
      align_and_convert
        \<lparr>luminance = (\<lambda>i. replicate 6 0), lanczos = (\<lambda>i t. replicate (fst t * snd t) 0)\<rparr>
        (\<lambda>p. p = ''gpt-output.png'')
        [''gpt-image.png'' \<mapsto>
           \<lparr>as_dataset = None,
            as_image = Some \<lparr>img_mode = RGB, img_size = (3, 2), img_data = replicate 18 0\<rparr>\<rparr>,
         ''bathymetry_aligned.tif'' \<mapsto>
           \<lparr>as_dataset = Some \<lparr>crs = None,
               transform = \<lparr>coef_a = 1, coef_b = 0, coef_c = 0, coef_d = 0, coef_e = 1,
                             coef_f = 0\<rparr>,
               shape = (891, 800)\<rparr>,
            as_image = None\<rparr>]
        ''gpt-image.png'' ''bathymetry_aligned.tif'' ''gpt-output.png'' = Inr fs'
      \<and> fs' ''gpt-output.png'' = Some saved
      \<and> as_image saved = Some aligned_img
      \<and> img_mode aligned_img = L
      \<and> img_size aligned_img = (800, 891))
   \<and> align_and_convert
        \<lparr>luminance = (\<lambda>i. replicate 6 0), lanczos = (\<lambda>i t. replicate (fst t * snd t) 0)\<rparr>
        (\<lambda>p. p = ''gpt-output.png'')
        [''gpt-image.png'' \<mapsto>
           \<lparr>as_dataset = None,
            as_image = Some \<lparr>img_mode = RGB, img_size = (3, 2), img_data = replicate 18 0\<rparr>\<rparr>,
         ''bathymetry_aligned.tif'' \<mapsto>
           \<lparr>as_dataset = Some \<lparr>crs = None,
               transform = \<lparr>coef_a = 1, coef_b = 0, coef_c = 0, coef_d = 0, coef_e = 1,
                             coef_f = 0\<rparr>,
               shape = (891, 800)\<rparr>,
            as_image = None\<rparr>]
        ''gpt-image.png'' ''bathymetry_aligned.tif'' ''nodir/out.png''
     = Inr [''gpt-image.png'' \<mapsto>
           \<lparr>as_dataset = None,
            as_image = Some \<lparr>img_mode = RGB, img_size = (3, 2), img_data = replicate 18 0\<rparr>\<rparr>,
         ''bathymetry_aligned.tif'' \<mapsto>
           \<lparr>as_dataset = Some \<lparr>crs = None,
               transform = \<lparr>coef_a = 1, coef_b = 0, coef_c = 0, coef_d = 0, coef_e = 1,
                             coef_f = 0\<rparr>,
               shape = (891, 800)\<rparr>,
            as_image = None\<rparr>]"
proof -
  let ?lib = "\<lparr>luminance = (\<lambda>i. replicate 6 0),
               lanczos = (\<lambda>i t. replicate (fst t * snd t) 0)\<rparr> :: pillow"
  let ?cw = "\<lambda>p. p = ''gpt-output.png''"
  let ?img = "\<lparr>img_mode = RGB, img_size = (3, 2), img_data = replicate 18 0\<rparr>"
  let ?gen = "\<lparr>as_dataset = None, as_image = Some ?img\<rparr>"
  let ?src = "\<lparr>crs = None,
              transform = \<lparr>coef_a = 1, coef_b = 0, coef_c = 0, coef_d = 0, coef_e = 1,
                            coef_f = 0\<rparr>,
              shape = (891, 800)\<rparr>"
  let ?tmpl = "\<lparr>as_dataset = Some ?src, as_image = None\<rparr>"
  let ?fs = "[''gpt-image.png'' \<mapsto> ?gen, ''bathymetry_aligned.tif'' \<mapsto> ?tmpl]"
  have h: "?fs ''gpt-image.png'' = Some ?gen" "as_image ?gen = Some ?img"
    "?fs ''bathymetry_aligned.tif'' = Some ?tmpl" "as_dataset ?tmpl = Some ?src"
    "shape ?src = (891, 800)" "(0::nat) < 891" "(0::nat) < 800"
    by simp_all
  have yes: "?cw ''gpt-output.png''" and no: "\<not> ?cw ''nodir/out.png''"
    by simp_all
  from grayscale_matches_template
         [OF h, where lib = ?lib and can_write = ?cw and output_path = "''gpt-output.png''"]
       yes
  have saved: "\<exists>fs' saved aligned_img.
      align_and_convert ?lib ?cw ?fs ''gpt-image.png'' ''bathymetry_aligned.tif''
        ''gpt-output.png'' = Inr fs'
      \<and> fs' ''gpt-output.png'' = Some saved
      \<and> as_image saved = Some aligned_img
      \<and> img_mode aligned_img = L
      \<and> img_size aligned_img = (800, 891)"
    by blast
  from grayscale_matches_template
         [OF h, where lib = ?lib and can_write = ?cw and output_path = "''nodir/out.png''"]
       no
  have failed: "align_and_convert ?lib ?cw ?fs ''gpt-image.png'' ''bathymetry_aligned.tif''
        ''nodir/out.png'' = Inr ?fs"
    by blast
  from saved failed show ?thesis by blast
qed

section \<open>Properties of the Accuracy Analyzer\<close>

subsection \<open>Errors of the load step\<close>

lemma load_missing:
  "load_and_prepare_data fs p t = Inl FileNotFoundError \<longleftrightarrow> fs p = None \<or> fs t = None"
  by (auto simp: load_and_prepare_data_def Let_def
      split: option.splits raster_file.splits)

lemma load_mismatch:
  "load_and_prepare_data fs p t = Inl (ValueError shape_mismatch) \<longleftrightarrow>
     (\<exists>pred_src truth_src. fs p = Some (Readable pred_src) \<and> fs t = Some (Readable truth_src)
        \<and> r_shape pred_src \<noteq> r_shape truth_src)"
  by (auto simp: load_and_prepare_data_def Let_def
      split: option.splits raster_file.splits)

lemma main_load_error:
  "load_and_prepare_data fs PREDICTED_DEPTH_PATH GROUND_TRUTH_PATH = Inl e \<Longrightarrow>
   main fs = \<lparr>failure = Some e, written = []\<rparr>"
  by (simp add: main_def)

text \<open>
  C8. The load step raises the missing-input error if and only if at least one of the
  two input files does not exist, and raises the shape-mismatch error if and only if both
  files exist and the shapes of the two rasters read from them differ. In either case
  the run ends with that error and has written neither the report nor any plot.
\<close>

theorem load_errors:
  "(load_and_prepare_data fs predicted_path truth_path = Inl FileNotFoundError
      \<longleftrightarrow> fs predicted_path = None \<or> fs truth_path = None)
   \<and> (load_and_prepare_data fs predicted_path truth_path = Inl (ValueError shape_mismatch)
      \<longleftrightarrow> (\<exists>pred_src truth_src.
             fs predicted_path = Some (Readable pred_src)
             \<and> fs truth_path = Some (Readable truth_src)
             \<and> r_shape pred_src \<noteq> r_shape truth_src))
   \<and> (load_and_prepare_data fs PREDICTED_DEPTH_PATH GROUND_TRUTH_PATH = Inl FileNotFoundError
        \<or> load_and_prepare_data fs PREDICTED_DEPTH_PATH GROUND_TRUTH_PATH
             = Inl (ValueError shape_mismatch)
      \<longrightarrow> written (main fs) = [] \<and> failure (main fs) \<noteq> None)"
proof (intro conjI)
  show "load_and_prepare_data fs predicted_path truth_path = Inl FileNotFoundError
      \<longleftrightarrow> fs predicted_path = None \<or> fs truth_path = None"
    by (rule load_missing)
  show "load_and_prepare_data fs predicted_path truth_path = Inl (ValueError shape_mismatch)
      \<longleftrightarrow> (\<exists>pred_src truth_src.
             fs predicted_path = Some (Readable pred_src)
             \<and> fs truth_path = Some (Readable truth_src)
             \<and> r_shape pred_src \<noteq> r_shape truth_src)"
    by (rule load_mismatch)
  show "load_and_prepare_data fs PREDICTED_DEPTH_PATH GROUND_TRUTH_PATH = Inl FileNotFoundError
        \<or> load_and_prepare_data fs PREDICTED_DEPTH_PATH GROUND_TRUTH_PATH
             = Inl (ValueError shape_mismatch)
      \<longrightarrow> written (main fs) = [] \<and> failure (main fs) \<noteq> None"
    by (auto simp: main_load_error)
qed

theorem load_errors_witness:
  "load_and_prepare_data
     [''bathymetry_aligned.tif'' \<mapsto>
        Readable \<lparr>r_shape = (1, 2), r_band1 = [3, 4], r_nodata = Some (-9999)\<rparr>]
     PREDICTED_DEPTH_PATH GROUND_TRUTH_PATH = Inl FileNotFoundError
   \<and> written (main
     [''bathymetry_aligned.tif'' \<mapsto>
        Readable \<lparr>r_shape = (1, 2), r_band1 = [3, 4], r_nodata = Some (-9999)\<rparr>]) = []
   \<and> load_and_prepare_data
     [''bathymetry_aligned.tif'' \<mapsto>
        Readable \<lparr>r_shape = (1, 2), r_band1 = [3, 4], r_nodata = Some (-9999)\<rparr>,
      ''output_rgb_image_for_model_depth_gray.png'' \<mapsto>
        Readable \<lparr>r_shape = (2, 2), r_band1 = [10, 20, 30, 40], r_nodata = None\<rparr>]
     PREDICTED_DEPTH_PATH GROUND_TRUTH_PATH = Inl (ValueError shape_mismatch)
   \<and> written (main
     [''bathymetry_aligned.tif'' \<mapsto>
        Readable \<lparr>r_shape = (1, 2), r_band1 = [3, 4], r_nodata = Some (-9999)\<rparr>,
      ''output_rgb_image_for_model_depth_gray.png'' \<mapsto>
        Readable \<lparr>r_shape = (2, 2), r_band1 = [10, 20, 30, 40], r_nodata = None\<rparr>]) = []"
proof -
  let ?truth = "Readable \<lparr>r_shape = (1, 2), r_band1 = [3, 4], r_nodata = Some (-9999)\<rparr>"
  let ?pred = "Readable \<lparr>r_shape = (2, 2), r_band1 = [10, 20, 30, 40], r_nodata = None\<rparr>"
  let ?fs1 = "[''bathymetry_aligned.tif'' \<mapsto> ?truth]"
  let ?fs2 = "[''bathymetry_aligned.tif'' \<mapsto> ?truth,
               ''output_rgb_image_for_model_depth_gray.png'' \<mapsto> ?pred]"
  have a: "?fs1 PREDICTED_DEPTH_PATH = None"
    by (simp add: PREDICTED_DEPTH_PATH_def)
  have b: "?fs2 PREDICTED_DEPTH_PATH = Some ?pred" "?fs2 GROUND_TRUTH_PATH = Some ?truth"
    by (simp_all add: PREDICTED_DEPTH_PATH_def GROUND_TRUTH_PATH_def)
  have m1: "load_and_prepare_data ?fs1 PREDICTED_DEPTH_PATH GROUND_TRUTH_PATH
      = Inl FileNotFoundError"
    using load_errors [of ?fs1 PREDICTED_DEPTH_PATH GROUND_TRUTH_PATH] a by simp
  have m2: "load_and_prepare_data ?fs2 PREDICTED_DEPTH_PATH GROUND_TRUTH_PATH
      = Inl (ValueError shape_mismatch)"
    using load_errors [of ?fs2 PREDICTED_DEPTH_PATH GROUND_TRUTH_PATH] b by simp
  have w1: "written (main ?fs1) = []"
    using load_errors [of ?fs1 PREDICTED_DEPTH_PATH GROUND_TRUTH_PATH] m1 by simp
  have w2: "written (main ?fs2) = []"
    using load_errors [of ?fs2 PREDICTED_DEPTH_PATH GROUND_TRUTH_PATH] m2 by simp
  from m1 w1 m2 w2 show ?thesis by simp
qed

subsection \<open>The least-squares fit\<close>

lemma sum_list_real_length: "sum_list xs = real (length xs) * mean xs" if "xs \<noteq> []"
  using that by (simp add: mean_def)

lemma sum_residuals:
  "length ys = length xs \<Longrightarrow>
   sum_list (map2 (\<lambda>y x. y - (x * m + c)) ys xs)
     = sum_list ys - m * sum_list xs - real (length xs) * c"
  by (induction ys xs rule: list_induct2) (simp_all add: algebra_simps)

lemma sum_residuals_times:
  "length ys = length xs \<Longrightarrow>
   sum_list (map2 (\<lambda>y x. (y - (x * m + c)) * x) ys xs)
     = dot xs ys - m * dot xs xs - c * sum_list xs"
  unfolding dot_def
  by (induction ys xs rule: list_induct2) (simp_all add: algebra_simps)

lemma dot_centred:
  assumes "length xs = length ys" and "xs \<noteq> []"
  shows "dot (centred xs) (centred ys) = dot xs ys - real (length xs) * mean xs * mean ys"
proof -
  have gen: "sum_list (map2 (*) (map (\<lambda>x. x - a) xs) (map (\<lambda>y. y - b) ys))
      = sum_list (map2 (*) xs ys) - a * sum_list ys - b * sum_list xs
        + real (length xs) * a * b" for a b
    using assms(1) by (induction xs ys rule: list_induct2) (simp_all add: algebra_simps)
  have "ys \<noteq> []" using assms by auto
  then have sy: "sum_list ys = real (length xs) * mean ys"
    using assms(1) by (simp add: mean_def)
  have sx: "sum_list xs = real (length xs) * mean xs"
    using assms(2) by (simp add: mean_def)
  show ?thesis
    unfolding dot_def centred_def gen sx sy by (simp add: algebra_simps)
qed

lemma dot_self_zero:
  assumes "dot zs zs = 0" and "length ws = length zs"
  shows "dot zs ws = 0"
proof -
  have "sum_list (map (\<lambda>z. z * z) zs) = 0"
    using assms(1) by (simp add: dot_def zip_same_conv_map comp_def)
  then have "\<forall>z \<in> set zs. z * z = 0"
    by (subst (asm) sum_list_nonneg_eq_0_iff) auto
  then have z: "\<forall>z \<in> set zs. z = 0" by simp
  from assms(2) z show ?thesis
    unfolding dot_def by (induction ws zs rule: list_induct2) simp_all
qed

lemma dot_self_nonneg: "0 \<le> dot zs zs"
  by (auto simp: dot_def zip_same_conv_map comp_def intro!: sum_list_nonneg)

text \<open>The normal equations of the fit.\<close>

lemma fit_residual_sum:
  assumes "length xs = length ys" and "xs \<noteq> []"
  shows "sum_list (map2 (\<lambda>y x. y - (x * reg_coef (fit xs ys) + reg_intercept (fit xs ys))) ys xs)
           = 0"
proof -
  have "ys \<noteq> []" using assms by auto
  then have sy: "sum_list ys = real (length xs) * mean ys"
    using assms(1) by (simp add: mean_def)
  have sx: "sum_list xs = real (length xs) * mean xs"
    using assms(2) by (simp add: mean_def)
  have c: "reg_intercept (fit xs ys) = mean ys - mean xs * reg_coef (fit xs ys)"
    by (simp add: fit_def Let_def)
  have "sum_list ys - reg_coef (fit xs ys) * sum_list xs
      - real (length xs) * reg_intercept (fit xs ys) = 0"
    unfolding c sx sy by (simp add: algebra_simps)
  with assms(1) show ?thesis
    by (subst sum_residuals) simp_all
qed

lemma fit_residual_orthogonal:
  assumes "length xs = length ys" and "xs \<noteq> []"
  shows "sum_list (map2 (\<lambda>y x. (y - (x * reg_coef (fit xs ys) + reg_intercept (fit xs ys))) * x)
           ys xs) = 0"
proof -
  define m where "m = reg_coef (fit xs ys)"
  define n where "n = real (length xs)"
  define sxx where "sxx = dot (centred xs) (centred xs)"
  define sxy where "sxy = dot (centred xs) (centred ys)"
  have sx: "sum_list xs = n * mean xs"
    using assms(2) by (simp add: mean_def n_def)
  have c: "reg_intercept (fit xs ys) = mean ys - mean xs * m"
    by (simp add: fit_def Let_def m_def)
  have xx: "dot xs xs = sxx + n * mean xs * mean xs"
    using assms(2) dot_centred [of xs xs] by (simp add: sxx_def n_def)
  have xy: "dot xs ys = sxy + n * mean xs * mean ys"
    using assms dot_centred [of xs ys] by (simp add: sxy_def n_def)
  have ne: "sxy - m * sxx = 0"
  proof (cases "sxx = 0")
    case True
    moreover have "length (centred ys) = length (centred xs)"
      using assms(1) by (simp add: centred_def)
    ultimately have "sxy = 0"
      unfolding sxx_def sxy_def by (rule dot_self_zero)
    with True show ?thesis by simp
  next
    case False
    moreover have "m = sxy / sxx"
      using False by (simp add: fit_def Let_def m_def sxx_def sxy_def)
    ultimately show ?thesis by simp
  qed
  have "dot xs ys - m * dot xs xs - (mean ys - mean xs * m) * sum_list xs = sxy - m * sxx"
    unfolding xx xy sx by (simp add: algebra_simps)
  also note ne
  finally have "dot xs ys - m * dot xs xs - reg_intercept (fit xs ys) * sum_list xs = 0"
    unfolding c .
  then show ?thesis
    unfolding m_def using assms(1) by (subst sum_residuals_times) simp_all
qed

lemma residual_square_shift:
  "(y - (x * m' + c'))\<^sup>2
     = (y - (x * m + c))\<^sup>2 + 2 * (m - m') * ((y - (x * m + c)) * x)
       + 2 * (c - c') * (y - (x * m + c)) + (x * (m - m') + (c - c'))\<^sup>2" for y :: real
  by (simp add: power2_eq_square algebra_simps)

lemma sse_decomposition:
  "length ys = length xs \<Longrightarrow>
   sum_list (map2 (\<lambda>y x. (y - (x * m' + c'))\<^sup>2) ys xs)
     = sum_list (map2 (\<lambda>y x. (y - (x * m + c))\<^sup>2) ys (xs :: real list))
       + 2 * (m - m') * sum_list (map2 (\<lambda>y x. (y - (x * m + c)) * x) ys xs)
       + 2 * (c - c') * sum_list (map2 (\<lambda>y x. y - (x * m + c)) ys xs)
       + sum_list (map (\<lambda>x. (x * (m - m') + (c - c'))\<^sup>2) xs)"
proof (induction ys xs rule: list_induct2)
  case Nil
  show ?case by simp
next
  case (Cons y ys x xs)
  show ?case
    by (simp add: Cons.IH residual_square_shift [of y x m' c' m c] distrib_left)
qed

lemma fit_least_squares:
  assumes "length xs = length ys" and "xs \<noteq> []"
  shows "sum_list (map2 (\<lambda>y x. (y - (x * reg_coef (fit xs ys) + reg_intercept (fit xs ys)))\<^sup>2)
            ys xs)
         \<le> sum_list (map2 (\<lambda>y x. (y - (x * m' + c'))\<^sup>2) ys xs)"
proof -
  have "0 \<le> sum_list (map (\<lambda>x. (x * (reg_coef (fit xs ys) - m')
            + (reg_intercept (fit xs ys) - c'))\<^sup>2) xs)"
    by (intro sum_list_nonneg) auto
  moreover have "sum_list (map2 (\<lambda>y x. (y - (x * m' + c'))\<^sup>2) ys xs)
      = sum_list (map2 (\<lambda>y x. (y - (x * reg_coef (fit xs ys) + reg_intercept (fit xs ys)))\<^sup>2)
          ys xs)
        + sum_list (map (\<lambda>x. (x * (reg_coef (fit xs ys) - m')
            + (reg_intercept (fit xs ys) - c'))\<^sup>2) xs)"
    using assms
    by (subst sse_decomposition [where m = "reg_coef (fit xs ys)"
          and c = "reg_intercept (fit xs ys)"])
       (simp_all add: fit_residual_sum fit_residual_orthogonal)
  ultimately show ?thesis by simp
qed

lemma sum_list_map2_nth:
  assumes "length ys = length xs"
  shows "sum_list (map2 f ys xs) = (\<Sum>i<length xs. f (ys ! i) (xs ! i))"
proof -
  have "sum_list (map2 f ys xs) = (\<Sum>i = 0..<length xs. map2 f ys xs ! i)"
    using assms by (simp add: sum_list_sum_nth)
  also have "\<dots> = (\<Sum>i = 0..<length xs. f (ys ! i) (xs ! i))"
    using assms by (intro sum.cong) simp_all
  finally show ?thesis
    by (simp only: lessThan_atLeast0)
qed

lemma map2_predict:
  "map2 g ys (predict reg xs)
     = map2 (\<lambda>y x. g y (x * reg_coef reg + reg_intercept reg)) ys xs"
  by (simp add: predict_def zip_map2 split_def)

lemma length_predict: "length (predict reg xs) = length xs"
  by (simp add: predict_def)

lemma pearsonr_returns:
  "length x = length y \<Longrightarrow> 2 \<le> length x \<Longrightarrow> \<exists>corr. pearsonr x y = Inr corr"
  by (simp add: pearsonr_def Let_def)

lemma perform_returns:
  assumes "pearsonr predicted truth = Inr corr"
  shows "perform_quantitative_analysis predicted truth =
    Inr \<lparr>pearson_r = corr,
         rmse = sqrt (mean_squared_error truth (predict (fit predicted truth) predicted)),
         mae = mean_absolute_error truth (predict (fit predicted truth) predicted),
         slope = reg_coef (fit predicted truth),
         intercept = reg_intercept (fit predicted truth),
         calibrated_predictions = predict (fit predicted truth) predicted,
         res_predicted_flat = predicted, res_truth_flat = truth\<rparr>"
  using assms by (simp add: perform_quantitative_analysis_def Let_def)

lemma residual_mean_zero:
  assumes "length xs = length ys" and "xs \<noteq> []"
  shows "mean (map2 (-) ys (predict (fit xs ys) xs)) = 0"
  using assms by (simp add: mean_def map2_predict fit_residual_sum)

text \<open>
  C10. For every non-empty analysis population the mean of the residuals, truth minus
  calibrated prediction, is exactly zero; in particular the mean annotated on the error
  histogram of any analysis that completes is zero.
\<close>

theorem residual_mean_is_zero:
  assumes "length predicted = length truth" and "predicted \<noteq> []"
  shows "mean (map2 (-) truth (predict (fit predicted truth) predicted)) = 0
    \<and> (\<forall>res. perform_quantitative_analysis predicted truth = Inr res
           \<longrightarrow> histogram_mean truth res = 0)"
proof (intro conjI allI impI)
  show zero: "mean (map2 (-) truth (predict (fit predicted truth) predicted)) = 0"
    using assms by (rule residual_mean_zero)
  fix res
  assume "perform_quantitative_analysis predicted truth = Inr res"
  then have "calibrated_predictions res = predict (fit predicted truth) predicted"
    by (auto simp: perform_quantitative_analysis_def Let_def split: sum.splits)
  with zero show "histogram_mean truth res = 0"
    by (simp add: histogram_mean_def errors_def)
qed

text \<open>
  C1, amended. For every pair of equal-length sequences of at least two predicted and
  truth values, the analysis returns a result whose slope and intercept are an ordinary
  least-squares fit of truth on predicted (no line has a smaller sum of squared
  residuals), whose calibrated predictions are slope * predicted + intercept, whose RMSE
  is the square root of the mean squared residual and whose MAE is the mean absolute
  residual between truth and the calibrated predictions.
\<close>

theorem analysis_least_squares:
  assumes len: "length predicted = length truth" and two: "2 \<le> length predicted"
  shows "\<exists>res. perform_quantitative_analysis predicted truth = Inr res
    \<and> (\<forall>m' c'. (\<Sum>i<length truth. (truth ! i - (slope res * predicted ! i + intercept res))\<^sup>2)
               \<le> (\<Sum>i<length truth. (truth ! i - (m' * predicted ! i + c'))\<^sup>2))
    \<and> calibrated_predictions res = map (\<lambda>p. slope res * p + intercept res) predicted
    \<and> rmse res = sqrt ((\<Sum>i<length truth. (truth ! i - calibrated_predictions res ! i)\<^sup>2)
                        / real (length truth))
    \<and> mae res = (\<Sum>i<length truth. \<bar>truth ! i - calibrated_predictions res ! i\<bar>)
                  / real (length truth)"
proof -
  let ?reg = "fit predicted truth"
  let ?cal = "predict ?reg predicted"
  from len two obtain corr where "pearsonr predicted truth = Inr corr"
    using pearsonr_returns by blast
  note res = perform_returns [OF this]
  have ne: "predicted \<noteq> []" using two by auto
  have len': "length truth = length predicted" using len by simp
  have lcal: "length truth = length ?cal"
    using len by (simp add: length_predict)
  have ols: "(\<Sum>i<length truth. (truth ! i - (reg_coef ?reg * predicted ! i
                 + reg_intercept ?reg))\<^sup>2)
        \<le> (\<Sum>i<length truth. (truth ! i - (m' * predicted ! i + c'))\<^sup>2)" for m' c'
    using fit_least_squares [OF len ne, of m' c']
    by (simp add: sum_list_map2_nth [OF len'] len' mult.commute)
  have cal: "?cal = map (\<lambda>p. reg_coef ?reg * p + reg_intercept ?reg) predicted"
    by (simp add: predict_def mult.commute)
  have rm: "mean_squared_error truth ?cal
      = (\<Sum>i<length truth. (truth ! i - ?cal ! i)\<^sup>2) / real (length truth)"
    using len by (simp add: mean_squared_error_def mean_def sum_list_map2_nth [OF lcal]
        length_predict)
  have ma: "mean_absolute_error truth ?cal
      = (\<Sum>i<length truth. \<bar>truth ! i - ?cal ! i\<bar>) / real (length truth)"
    using len by (simp add: mean_absolute_error_def mean_def sum_list_map2_nth [OF lcal]
        length_predict)
  show ?thesis
    unfolding res using ols cal rm ma by simp
qed

text \<open>
  C1 as stated includes a population of a single valid pixel. There \<open>pearsonr\<close>, the
  first call of the analysis, raises, and nothing is fitted.
\<close>

theorem analysis_single_pixel:
  "perform_quantitative_analysis [5] [3] = Inl (ValueError too_short)"
  by (simp add: perform_quantitative_analysis_def pearsonr_def)

lemma fit_demo: "fit [0, 1, 2] [0, 2, 1] = \<lparr>reg_coef = 1 / 2, reg_intercept = 1 / 2\<rparr>"
  by (simp add: fit_def mean_def centred_def dot_def Let_def)

theorem analysis_least_squares_witness:
  "\<exists>res. perform_quantitative_analysis [0, 1, 2] [0, 2, 1] = Inr res
     \<and> slope res = 1 / 2 \<and> intercept res = 1 / 2
     \<and> calibrated_predictions res = [1 / 2, 1, 3 / 2]
     \<and> rmse res = sqrt (1 / 2) \<and> mae res = 2 / 3
     \<and> (\<forall>m' c' :: real.
           3 / 2 \<le> (0 - c')\<^sup>2 + (2 - (m' + c'))\<^sup>2 + (1 - (m' * 2 + c'))\<^sup>2)"
proof -
  have "length [0, 1, 2 :: real] = length [0, 2, 1 :: real]" "2 \<le> length [0, 1, 2 :: real]"
    by simp_all
  from analysis_least_squares [OF this] obtain res where
    res: "perform_quantitative_analysis [0, 1, 2] [0, 2, 1] = Inr res"
    and ols0: "\<forall>m' c'. (\<Sum>i<length [0, 2, 1 :: real].
                 ([0, 2, 1] ! i - (slope res * [0, 1, 2] ! i + intercept res))\<^sup>2)
               \<le> (\<Sum>i<length [0, 2, 1 :: real]. ([0, 2, 1] ! i - (m' * [0, 1, 2] ! i + c'))\<^sup>2)"
    and cal: "calibrated_predictions res = map (\<lambda>p. slope res * p + intercept res) [0, 1, 2]"
    and rm0: "rmse res = sqrt ((\<Sum>i<length [0, 2, 1 :: real].
                 ([0, 2, 1] ! i - calibrated_predictions res ! i)\<^sup>2)
                 / real (length [0, 2, 1 :: real]))"
    and ma0: "mae res = (\<Sum>i<length [0, 2, 1 :: real].
                 \<bar>[0, 2, 1] ! i - calibrated_predictions res ! i\<bar>)
                 / real (length [0, 2, 1 :: real])"
    by blast
  from res have sl: "slope res = 1 / 2" and ic: "intercept res = 1 / 2"
    by (auto simp: perform_quantitative_analysis_def Let_def fit_demo split: sum.splits)
  have cal': "calibrated_predictions res = [1 / 2, 1, 3 / 2]"
    by (simp add: cal sl ic)
  have rm': "rmse res = sqrt (1 / 2)"
    using rm0 by (simp add: cal' power2_eq_square)
  have ma': "mae res = 2 / 3"
    using ma0 by (simp add: cal')
  have "3 / 2 \<le> (0 - c')\<^sup>2 + (2 - (m' + c'))\<^sup>2 + (1 - (m' * 2 + c'))\<^sup>2" for m' c' :: real
    using ols0 [rule_format, of m' c'] by (simp add: sl ic power2_eq_square)
  with res sl ic cal' rm' ma' show ?thesis by blast
qed

theorem residual_mean_is_zero_witness:
  "mean (map2 (-) [0, 2, 1] (predict (fit [0, 1, 2] [0, 2, 1]) [0, 1, 2])) = 0
   \<and> (\<exists>res. perform_quantitative_analysis [0, 1, 2] [0, 2, 1] = Inr res
         \<and> histogram_mean [0, 2, 1] res = 0)"
proof -
  have h: "length [0, 1, 2 :: real] = length [0, 2, 1 :: real]" "[0, 1, 2 :: real] \<noteq> []"
    by simp_all
  obtain res where res: "perform_quantitative_analysis [0, 1, 2] [0, 2, 1] = Inr res"
    by (simp add: perform_quantitative_analysis_def pearsonr_def is_constant_def Let_def)
  with residual_mean_is_zero [OF h] show ?thesis by blast
qed

subsection \<open>Truth that is an affine image of the prediction\<close>

lemma is_constant_iff: "is_constant xs \<longleftrightarrow> (\<forall>x \<in> set xs. x = hd xs)"
  by (simp add: is_constant_def list_all_iff)

lemma varying_not_constant:
  assumes "i < length xs" and "j < length xs" and "xs ! i \<noteq> xs ! j"
  shows "\<not> is_constant xs"
proof
  assume "is_constant xs"
  then have "xs ! i = hd xs" "xs ! j = hd xs"
    using assms(1,2) by (simp_all add: is_constant_iff)
  with assms(3) show False by simp
qed

lemma not_constant_length: "\<not> is_constant xs \<Longrightarrow> 2 \<le> length xs"
proof (cases xs)
  case Nil
  then show "\<not> is_constant xs \<Longrightarrow> 2 \<le> length xs" by (simp add: is_constant_def)
next
  case (Cons x xs')
  then show "\<not> is_constant xs \<Longrightarrow> 2 \<le> length xs"
    by (cases xs') (simp_all add: is_constant_def)
qed

lemma spread_positive:
  assumes "\<not> is_constant xs"
  shows "0 < dot (centred xs) (centred xs)"
proof (rule ccontr)
  assume "\<not> 0 < dot (centred xs) (centred xs)"
  with dot_self_nonneg [of "centred xs"] have "dot (centred xs) (centred xs) = 0"
    by simp
  then have "sum_list (map (\<lambda>z. z * z) (centred xs)) = 0"
    by (simp add: dot_def zip_same_conv_map comp_def)
  then have "\<forall>z \<in> set (centred xs). z * z = 0"
    by (subst (asm) sum_list_nonneg_eq_0_iff) auto
  then have "\<forall>x \<in> set xs. x = mean xs"
    by (simp add: centred_def)
  moreover have "xs \<noteq> []"
    using assms by (auto simp: is_constant_def)
  ultimately have "\<forall>x \<in> set xs. x = hd xs"
    by (metis hd_in_set)
  with assms show False
    by (simp add: is_constant_iff)
qed

lemma mean_affine:
  assumes "xs \<noteq> []"
  shows "mean (map (\<lambda>x. a * x + b) xs) = a * mean xs + b"
proof -
  have "sum_list (map (\<lambda>x. a * x + b) xs) = a * sum_list xs + real (length xs) * b"
    by (induction xs) (simp_all add: algebra_simps)
  with assms show ?thesis
    by (simp add: mean_def field_simps)
qed

lemma centred_affine:
  assumes "xs \<noteq> []"
  shows "centred (map (\<lambda>x. a * x + b) xs) = map (\<lambda>v. a * v) (centred xs)"
  unfolding centred_def mean_affine [OF assms]
  by (simp add: algebra_simps)

lemma dot_scale_right: "dot zs (map (\<lambda>v. a * v) ws) = a * dot zs ws"
  unfolding dot_def
  by (induction zs arbitrary: ws) (auto simp: algebra_simps split: list.splits
      simp: zip_Cons1)


lemma fit_affine:
  assumes "\<not> is_constant xs"
  shows "fit xs (map (\<lambda>x. a * x + b) xs) = \<lparr>reg_coef = a, reg_intercept = b\<rparr>"
proof -
  have ne: "xs \<noteq> []"
    using assms by (auto simp: is_constant_def)
  have pos: "dot (centred xs) (centred xs) \<noteq> 0"
    using spread_positive [OF assms] by simp
  show ?thesis
    using pos
    by (simp add: fit_def Let_def centred_affine [OF ne] dot_scale_right mean_affine [OF ne])
qed

lemma predict_affine:
  "predict \<lparr>reg_coef = a, reg_intercept = b\<rparr> xs = map (\<lambda>x. a * x + b) xs"
  by (simp add: predict_def mult.commute)

lemma mean_squared_error_self: "mean_squared_error ys ys = 0"
proof -
  have "sum_list (map2 (\<lambda>t p. (t - p)\<^sup>2) ys ys) = 0"
    by (simp add: zip_same_conv_map comp_def)
  then show ?thesis
    by (simp add: mean_squared_error_def mean_def)
qed

lemma mean_absolute_error_self: "mean_absolute_error ys ys = 0"
proof -
  have "sum_list (map2 (\<lambda>t p. \<bar>t - p\<bar>) ys ys) = 0"
    by (simp add: zip_same_conv_map comp_def)
  then show ?thesis
    by (simp add: mean_absolute_error_def mean_def)
qed

lemma is_constant_affine:
  assumes "\<not> is_constant xs"
  shows "is_constant (map (\<lambda>x. a * x + b) xs) \<longleftrightarrow> a = 0"
proof -
  have ne: "xs \<noteq> []"
    using assms by (auto simp: is_constant_def)
  then have "hd (map (\<lambda>x. a * x + b) xs) = a * hd xs + b"
    by (simp add: hd_map)
  then have "is_constant (map (\<lambda>x. a * x + b) xs)
      \<longleftrightarrow> (\<forall>x \<in> set xs. a = 0 \<or> x = hd xs)"
    by (simp add: is_constant_iff)
  with assms show ?thesis
    by (auto simp: is_constant_iff)
qed

lemma dot_normalised:
  "dot (map (\<lambda>v. v / p) zs) (map (\<lambda>v. v / q) (map (\<lambda>v. a * v) zs))
     = a * dot zs zs / (p * q)"
proof -
  have "sum_list (map (\<lambda>z. (z / p) * (a * z / q)) zs)
      = a * sum_list (map (\<lambda>z. z * z) zs) / (p * q)"
    by (induction zs) (simp_all add: add_divide_distrib algebra_simps)
  then show ?thesis
    by (simp add: dot_def zip_map_map zip_same_conv_map comp_def)
qed

lemma dot_scale_both: "dot (map (\<lambda>v. a * v) zs) (map (\<lambda>v. a * v) zs) = a\<^sup>2 * dot zs zs"
proof -
  have "sum_list (map (\<lambda>z. (a * z) * (a * z)) zs) = a\<^sup>2 * sum_list (map (\<lambda>z. z * z) zs)"
    by (induction zs) (simp_all add: power2_eq_square algebra_simps)
  then show ?thesis
    by (simp add: dot_def zip_map_map zip_same_conv_map comp_def)
qed

lemma pearsonr_affine:
  assumes "\<not> is_constant xs" and "a \<noteq> 0"
  shows "pearsonr xs (map (\<lambda>x. a * x + b) xs) = Inr (Some (if 0 < a then 1 else -1))"
proof -
  define ys where "ys = map (\<lambda>x. a * x + b) xs"
  define s where "s = dot (centred xs) (centred xs)"
  have ne: "xs \<noteq> []"
    using assms(1) by (auto simp: is_constant_def)
  have len: "\<not> length xs < 2"
    using not_constant_length [OF assms(1)] by simp
  have lenxy: "length xs = length ys"
    by (simp add: ys_def)
  have pos: "0 < s"
    unfolding s_def by (rule spread_positive [OF assms(1)])
  have nc: "\<not> is_constant ys"
    unfolding ys_def using assms by (simp add: is_constant_affine)
  have P: "pearsonr xs ys =
      Inr (Some (max (min (dot (map (\<lambda>v. v / sqrt s) (centred xs))
                            (map (\<lambda>v. v / sqrt (dot (centred ys) (centred ys))) (centred ys)))
                      1) (-1)))"
    using len lenxy assms(1) nc by (simp add: pearsonr_def Let_def s_def)
  have ym: "centred ys = map (\<lambda>v. a * v) (centred xs)"
    unfolding ys_def by (rule centred_affine [OF ne])
  have yy: "dot (centred ys) (centred ys) = a\<^sup>2 * s"
    unfolding ym s_def by (rule dot_scale_both)
  have normy: "sqrt (a\<^sup>2 * s) = \<bar>a\<bar> * sqrt s"
    by (simp add: real_sqrt_mult)
  have "a * s / (sqrt s * (\<bar>a\<bar> * sqrt s)) = a / \<bar>a\<bar>"
    using pos assms(2) by (simp add: field_simps)
  also have "\<dots> = (if 0 < a then 1 else -1)"
    using assms(2) by (simp add: abs_if)
  finally have r0: "a * s / (sqrt s * (\<bar>a\<bar> * sqrt s)) = (if 0 < a then 1 else -1)" .
  have "dot (map (\<lambda>v. v / sqrt s) (centred xs))
            (map (\<lambda>v. v / sqrt (dot (centred ys) (centred ys))) (centred ys))
      = a * dot (centred xs) (centred xs) / (sqrt s * (\<bar>a\<bar> * sqrt s))"
    unfolding yy normy unfolding ym by (rule dot_normalised)
  also have "\<dots> = (if 0 < a then 1 else -1)"
    using r0 by (simp add: s_def)
  finally have r: "dot (map (\<lambda>v. v / sqrt s) (centred xs))
            (map (\<lambda>v. v / sqrt (dot (centred ys) (centred ys))) (centred ys))
      = (if 0 < a then 1 else -1)" .
  have "pearsonr xs ys = Inr (Some (if 0 < a then 1 else -1))"
    unfolding P r by simp
  then show ?thesis
    by (simp add: ys_def)
qed

lemma pearsonr_constant_truth:
  assumes "\<not> is_constant xs"
  shows "pearsonr xs (map (\<lambda>x. 0 * x + b) xs) = Inr None"
proof -
  have len: "\<not> length xs < 2"
    using not_constant_length [OF assms] by simp
  have "is_constant (map (\<lambda>x. 0 * x + b) xs)"
    using is_constant_affine [OF assms, of 0 b] by simp
  with len show ?thesis
    by (simp add: pearsonr_def)
qed

text \<open>
  C2, amended. For every non-constant predicted sequence and a truth sequence with
  truth = a * predicted + b, the fitted slope and intercept are exactly a and b and RMSE
  and MAE are both 0; Pearson's correlation is 1 when a is positive and -1 when a is
  negative, and it is undefined (NaN) when a is 0, the truth then being constant.
\<close>

theorem affine_truth_recovered:
  assumes varying: "\<exists>i<length predicted. \<exists>j<length predicted. predicted ! i \<noteq> predicted ! j"
    and affine: "truth = map (\<lambda>p. a * p + b) predicted"
  shows "\<exists>res. perform_quantitative_analysis predicted truth = Inr res
    \<and> pearson_r res = (if a = 0 then None else if 0 < a then Some 1 else Some (-1))
    \<and> slope res = a \<and> intercept res = b
    \<and> rmse res = 0 \<and> mae res = 0"
proof -
  from varying have nc: "\<not> is_constant predicted"
    using varying_not_constant by blast
  have corr: "pearsonr predicted truth
      = Inr (if a = 0 then None else if 0 < a then Some 1 else Some (-1))"
  proof (cases "a = 0")
    case True
    then show ?thesis
      using pearsonr_constant_truth [OF nc, of b] by (simp add: affine)
  next
    case False
    then show ?thesis
      using pearsonr_affine [OF nc False, of b] by (simp add: affine)
  qed
  have f: "fit predicted truth = \<lparr>reg_coef = a, reg_intercept = b\<rparr>"
    unfolding affine by (rule fit_affine [OF nc])
  have p: "predict (fit predicted truth) predicted = truth"
    by (simp only: f predict_affine) (simp add: affine)
  show ?thesis
    unfolding perform_returns [OF corr] p
    by (simp add: f mean_squared_error_self mean_absolute_error_self)
qed

text \<open>
  C2 as stated gives the correlation 1 whenever a is not negative. For a = 0, b = 3 and
  the predicted values 0 and 1 the truth is 3 and 3, and the correlation is NaN.
\<close>

theorem constant_truth_no_correlation:
  "perform_quantitative_analysis [0, 1] [3, 3]
     = Inr \<lparr>pearson_r = None, rmse = 0, mae = 0, slope = 0, intercept = 3,
            calibrated_predictions = [3, 3], res_predicted_flat = [0, 1],
            res_truth_flat = [3, 3]\<rparr>"
  by (simp add: perform_quantitative_analysis_def pearsonr_def is_constant_def Let_def
      fit_def predict_def mean_def centred_def dot_def mean_squared_error_def
      mean_absolute_error_def)


theorem affine_truth_recovered_witness:
  "(\<exists>res. perform_quantitative_analysis [0, 1, 2] [1, 3, 5] = Inr res
      \<and> pearson_r res = Some 1 \<and> slope res = 2 \<and> intercept res = 1
      \<and> rmse res = 0 \<and> mae res = 0)
   \<and> (\<exists>res. perform_quantitative_analysis [0, 1, 2] [5, 3, 1] = Inr res
      \<and> pearson_r res = Some (-1) \<and> slope res = -2 \<and> intercept res = 5
      \<and> rmse res = 0 \<and> mae res = 0)"
proof -
  have varying: "\<exists>i<length [0, 1, 2 :: real]. \<exists>j<length [0, 1, 2 :: real].
      [0, 1, 2 :: real] ! i \<noteq> [0, 1, 2] ! j"
    by (rule exI [of _ 0], simp, rule exI [of _ 1], simp)
  have up: "[1, 3, 5] = map (\<lambda>p. 2 * p + 1) [0, 1, 2 :: real]"
    and down: "[5, 3, 1] = map (\<lambda>p. (-2) * p + 5) [0, 1, 2 :: real]"
    by simp_all
  show ?thesis
    using affine_truth_recovered [OF varying up] affine_truth_recovered [OF varying down]
    by simp
qed

end
